theory Spec2Isabelle
  imports Complex_Main "HOL-Library.AList" "HOL-Library.Log_Nat"
begin

section \<open>Python values\<close>

text \<open>
  The values that \<^verbatim>\<open>json.load\<close> returns: \<^verbatim>\<open>None\<close>, booleans, integers, floats,
  strings, lists and dictionaries with string keys. A dictionary keeps insertion order, so it
  is an association list; Python dictionaries have distinct keys.
\<close>

datatype json =
    JNull
  | JBool bool
  | JInt int
  | JFloat rat
  | JStr string
  | JArr "json list"
  | JObj "(string \<times> json) list"

datatype py_error =
    ValueError string
  | TypeError
  | AttributeError
  | KeyError string
  | ZeroDivisionError
  | FileNotFoundError
  | JSONDecodeError

text \<open>\<^verbatim>\<open>needle in haystack\<close> for two strings: the needle occurs as a contiguous run.\<close>

fun is_prefix :: "string \<Rightarrow> string \<Rightarrow> bool" where
  "is_prefix [] ys = True"
| "is_prefix (x # xs) [] = False"
| "is_prefix (x # xs) (y # ys) = (x = y \<and> is_prefix xs ys)"

fun is_substring :: "string \<Rightarrow> string \<Rightarrow> bool" where
  "is_substring xs [] = (xs = [])"
| "is_substring xs (y # ys) = (is_prefix xs (y # ys) \<or> is_substring xs ys)"

text \<open>
  \<^verbatim>\<open>key in data\<close> with a string key: key membership for a dictionary, element membership for
  a list, substring test for a string, \<^verbatim>\<open>TypeError\<close> for anything else.
\<close>

fun py_contains :: "string \<Rightarrow> json \<Rightarrow> py_error + bool" where
  "py_contains k (JObj kvs) = Inr (k \<in> set (map fst kvs))"
| "py_contains k (JArr xs) = Inr (JStr k \<in> set xs)"
| "py_contains k (JStr s) = Inr (is_substring k s)"
| "py_contains k _ = Inl TypeError"

text \<open>\<^verbatim>\<open>data[key]\<close> with a string key.\<close>

fun py_getitem :: "json \<Rightarrow> string \<Rightarrow> py_error + json" where
  "py_getitem (JObj kvs) k = (case map_of kvs k of None \<Rightarrow> Inl (KeyError k) | Some v \<Rightarrow> Inr v)"
| "py_getitem _ k = Inl TypeError"

text \<open>\<^verbatim>\<open>data.items()\<close>.\<close>

fun py_items :: "json \<Rightarrow> py_error + (string \<times> json) list" where
  "py_items (JObj kvs) = Inr kvs"
| "py_items _ = Inl AttributeError"

text \<open>
  \<^verbatim>\<open>config[key] = value\<close> with a string key: a dictionary keeps the position of a key it
  already has and appends a new one; every other value raises \<^verbatim>\<open>TypeError\<close>.
\<close>

fun py_setitem :: "json \<Rightarrow> string \<Rightarrow> json \<Rightarrow> py_error + json" where
  "py_setitem (JObj kvs) k v = Inr (JObj (AList.update k v kvs))"
| "py_setitem _ k v = Inl TypeError"

text \<open>\<^verbatim>\<open>data.get(key, default)\<close> on a dictionary.\<close>

definition dict_get :: "(string \<times> json) list \<Rightarrow> string \<Rightarrow> json \<Rightarrow> json" where
  "dict_get kvs k d = (case map_of kvs k of None \<Rightarrow> d | Some v \<Rightarrow> v)"

text \<open>Truth value of an optional string argument: \<^verbatim>\<open>None\<close> and \<^verbatim>\<open>""\<close> are false.\<close>

fun truthy_opt :: "string option \<Rightarrow> bool" where
  "truthy_opt None = False"
| "truthy_opt (Some s) = (s \<noteq> [])"

section \<open>Formatted text, documents and files\<close>

text \<open>
  The text that an f-string or \<^verbatim>\<open>print\<close> produces is kept as its pieces: literal text, the
  \<^verbatim>\<open>str()\<close> of a value, an integer, a path, the output of \<^verbatim>\<open>json.dumps(v, indent=2)\<close>,
  and the message of an exception.
\<close>

type_synonym path = "string list"

datatype piece =
    Text string
  | Str json
  | Num int
  | PathStr path
  | Dumps json
  | ErrStr py_error

text \<open>
  \<^verbatim>\<open>SKILL.md\<close> as the template of \<^verbatim>\<open>_generate_skill_md\<close> produces it. The two sections
  that carry the token figures are kept line by line, with the text the template has:
  \<^item> \<open>md_context_efficiency\<close>: the section ``Context Efficiency'';
  \<^item> \<open>md_performance_notes\<close>: the section ``Performance Notes'', the table and the savings
    line.

  Of the rest, whose prose is constant, the values that the template fills in are kept:
  \<^item> \<open>md_name\<close>: \<^verbatim>\<open>{self.server_name}\<close> of the front matter and the headings;
  \<^item> \<open>md_tool_count\<close>: \<^verbatim>\<open>{tool_count}\<close> of the description in the front matter;
  \<^item> \<open>md_transport\<close>: \<^verbatim>\<open>{self._get_transport_type()}\<close>;
  \<^item> \<open>md_tool_list\<close>: the lines of \<^verbatim>\<open>{tool_list}\<close>.
\<close>

record skill_md =
  md_name :: json
  md_tool_count :: int
  md_transport :: "piece list"
  md_context_efficiency :: "piece list list"
  md_tool_list :: "piece list list"
  md_performance_notes :: "piece list list"

text \<open>
  Files. A file that holds a JSON document is represented by the document itself
  (\<^verbatim>\<open>json.dump\<close> writes it, \<^verbatim>\<open>json.load\<close> reads it back); the generated
  \<^verbatim>\<open>SKILL.md\<close> by its parts; the generated \<^verbatim>\<open>executor.py\<close> is one fixed text;
  \<^verbatim>\<open>package.json\<close> is kept by its two formatted fields; any other file is text.
\<close>

datatype file_content =
    JsonFile json
  | SkillMdFile skill_md
  | ExecutorFile
  | PackageFile "piece list" "piece list"
  | TextFile string

type_synonym filesystem = "path \<Rightarrow> file_content option"

section \<open>The configuration parser (\<^verbatim>\<open>parse_mcp_config\<close>)\<close>

text \<open>
  The loop over \<^verbatim>\<open>data["mcpServers"].items()\<close>; \<^verbatim>\<open>servers\<close> is the list built so far.
\<close>

fun collect_servers :: "string option \<Rightarrow> json list \<Rightarrow> (string \<times> json) list \<Rightarrow> py_error + json list" where
  "collect_servers server_name servers [] = Inr servers"
| "collect_servers server_name servers ((name, config) # rest) =
     (if truthy_opt server_name \<and> Some name \<noteq> server_name
      then collect_servers server_name servers rest
      else (case py_setitem config ''name'' (JStr name) of
              Inl e \<Rightarrow> Inl e
            | Inr config' \<Rightarrow> collect_servers server_name (servers @ [config']) rest))"

definition invalid_config_format :: string where
  "invalid_config_format = ''Invalid config format. Expected 'mcpServers' or single server config.''"

text \<open>The body of \<^verbatim>\<open>parse_mcp_config\<close> after \<^verbatim>\<open>json.load\<close> has produced \<^verbatim>\<open>data\<close>.\<close>

definition parse_mcp_data :: "json \<Rightarrow> string option \<Rightarrow> py_error + json list" where
  "parse_mcp_data data server_name =
     (case py_contains ''mcpServers'' data of
        Inl e \<Rightarrow> Inl e
      | Inr True \<Rightarrow>
          (case py_getitem data ''mcpServers'' of
             Inl e \<Rightarrow> Inl e
           | Inr m \<Rightarrow>
               (case py_items m of
                  Inl e \<Rightarrow> Inl e
                | Inr entries \<Rightarrow> collect_servers server_name [] entries))
      | Inr False \<Rightarrow>
          (case py_contains ''command'' data of
             Inl e \<Rightarrow> Inl e
           | Inr True \<Rightarrow> Inr [data]
           | Inr False \<Rightarrow>
               (case py_contains ''url'' data of
                  Inl e \<Rightarrow> Inl e
                | Inr True \<Rightarrow> Inr [data]
                | Inr False \<Rightarrow> Inl (ValueError invalid_config_format))))"

definition json_load :: "filesystem \<Rightarrow> path \<Rightarrow> py_error + json" where
  "json_load fs p =
     (case fs p of
        None \<Rightarrow> Inl FileNotFoundError
      | Some (JsonFile d) \<Rightarrow> Inr d
      | Some _ \<Rightarrow> Inl JSONDecodeError)"

definition parse_mcp_config :: "filesystem \<Rightarrow> path \<Rightarrow> string option \<Rightarrow> py_error + json list" where
  "parse_mcp_config fs config_path server_name =
     (case json_load fs config_path of
        Inl e \<Rightarrow> Inl e
      | Inr data \<Rightarrow> parse_mcp_data data server_name)"

text \<open>What the parser does to one entry of the \<^verbatim>\<open>mcpServers\<close> map whose body is a dictionary.\<close>

definition named_entry :: "string \<times> (string \<times> json) list \<Rightarrow> json" where
  "named_entry e = JObj (AList.update ''name'' (JStr (fst e)) (snd e))"

definition body_entry :: "string \<times> (string \<times> json) list \<Rightarrow> string \<times> json" where
  "body_entry e = (fst e, JObj (snd e))"

text \<open>
  A document of the \<^verbatim>\<open>mcpServers\<close> shape: a dictionary whose \<^verbatim>\<open>mcpServers\<close> value is a
  dictionary from names to bodies, each body a dictionary.
\<close>

definition mcpServers_shape :: "json \<Rightarrow> (string \<times> (string \<times> json) list) list \<Rightarrow> bool" where
  "mcpServers_shape data es =
     (case data of
        JObj d \<Rightarrow> map_of d ''mcpServers'' = Some (JObj (map body_entry es)) \<and> distinct (map fst es)
      | _ \<Rightarrow> False)"

section \<open>Python floats\<close>

text \<open>
  A Python \<^verbatim>\<open>float\<close> is an IEEE 754 binary64 number; a finite one is a rational. Every
  arithmetic operation returns the exact result rounded to the nearest double, ties to the
  even significand. The values of this program stay below 1024 in magnitude, so the
  overflow to infinity is left out of \<open>to_double\<close>.
\<close>

text \<open>Rounding to the nearest integer, a tie to the even one.\<close>

definition round_even :: "rat \<Rightarrow> int" where
  "round_even x =
     (let f = \<lfloor>x\<rfloor>; d = x - of_int f
      in if d < 1 / 2 then f else if 1 / 2 < d then f + 1 else if even f then f else f + 1)"

text \<open>The binary exponent of a positive rational: \<open>2 powi ilog2 x \<le> x < 2 powi (ilog2 x + 1)\<close>.\<close>

definition ilog2 :: "rat \<Rightarrow> int" where
  "ilog2 x =
     (let (a, b) = quotient_of x; e = bitlen a - bitlen b
      in if 2 powi e \<le> x then e else e - 1)"

text \<open>
  The nearest double: 53 significant bits from the exponent of \<open>x\<close>, and the fixed spacing
  \<open>2 powi (- 1074)\<close> of the subnormal numbers below \<open>2 powi (- 1022)\<close>.
\<close>

definition to_double :: "rat \<Rightarrow> rat" where
  "to_double x =
     (if x = 0 then 0
      else let e = max (ilog2 \<bar>x\<bar>) (- 1022); q = 2 powi (e - 52)
           in of_int (round_even (x / q)) * q)"

text \<open>\<^verbatim>\<open>a / b\<close> on two integers: the correctly rounded quotient.\<close>

definition py_truediv :: "int \<Rightarrow> int \<Rightarrow> py_error + rat" where
  "py_truediv a b = (if b = 0 then Inl ZeroDivisionError else Inr (to_double (of_int a / of_int b)))"

definition float_sub :: "rat \<Rightarrow> rat \<Rightarrow> rat" where
  "float_sub x y = to_double (x - y)"

definition float_mul :: "rat \<Rightarrow> rat \<Rightarrow> rat" where
  "float_mul x y = to_double (x * y)"

text \<open>\<^verbatim>\<open>int(x)\<close> on a float: truncation toward zero.\<close>

definition py_int :: "rat \<Rightarrow> int" where
  "py_int x = (if 0 \<le> x then \<lfloor>x\<rfloor> else \<lceil>x\<rceil>)"

section \<open>The skill generator (\<^verbatim>\<open>MCPSkillGenerator\<close>)\<close>

text \<open>
  What the generator acts on: the files and the lines printed to standard output. Directories
  are not files of their own (\<^verbatim>\<open>mkdir\<close> changes nothing here), and the check mark that
  starts some printed lines is left out.
\<close>

record world =
  files :: filesystem
  printed :: "piece list list"

definition write_file :: "path \<Rightarrow> file_content \<Rightarrow> world \<Rightarrow> world" where
  "write_file p c w = w\<lparr>files := (files w)(p \<mapsto> c)\<rparr>"

definition print_line :: "piece list \<Rightarrow> world \<Rightarrow> world" where
  "print_line l w = w\<lparr>printed := printed w @ [l]\<rparr>"

record generator =
  self_mcp_config :: "(string \<times> json) list"
  self_output_dir :: path
  self_server_name :: json

text \<open>\<^verbatim>\<open>__init__\<close>.\<close>

definition new_generator :: "(string \<times> json) list \<Rightarrow> path \<Rightarrow> generator" where
  "new_generator config dir =
     \<lparr>self_mcp_config = config, self_output_dir = dir,
      self_server_name = dict_get config ''name'' (JStr ''unnamed-mcp-server'')\<rparr>"

text \<open>\<^verbatim>\<open>_get_transport_type\<close>; \<^verbatim>\<open>.get("type")\<close> without a default gives \<^verbatim>\<open>None\<close>.\<close>

definition get_transport_type :: "generator \<Rightarrow> piece list" where
  "get_transport_type g =
     (if dict_get (self_mcp_config g) ''type'' JNull = JStr ''http''
      then [Text ''HTTP ('', Str (dict_get (self_mcp_config g) ''url'' (JStr ''unknown'')), Text '')'']
      else [Text ''stdio (local process)''])"

text \<open>The list that \<^verbatim>\<open>_get_mcp_tools\<close> returns.\<close>

definition mock_tools :: "json list" where
  "mock_tools =
     [JObj [(''name'', JStr ''example_tool''),
            (''description'', JStr ''An example tool from the MCP server''),
            (''inputSchema'',
               JObj [(''type'', JStr ''object''),
                     (''properties'',
                        JObj [(''param1'', JObj [(''type'', JStr ''string''),
                                                 (''description'', JStr ''First parameter'')])]),
                     (''required'', JArr [JStr ''param1''])])]]"

text \<open>
  \<^verbatim>\<open>_get_mcp_tools\<close>: reads the command of the configuration, prints it and returns the
  fixed list. It starts no process and opens no connection.
\<close>

definition get_mcp_tools :: "generator \<Rightarrow> world \<Rightarrow> json list \<times> world" where
  "get_mcp_tools g w =
     (let command = dict_get (self_mcp_config g) ''command'' (JStr '''')
      in (mock_tools, print_line [Text ''Introspecting MCP server: '', Str command] w))"

text \<open>
  One line of \<^verbatim>\<open>tool_list\<close>: \<^verbatim>\<open>t['name']\<close> is evaluated first, then
  \<^verbatim>\<open>t.get('description', 'No description')\<close>.
\<close>

definition tool_line :: "json \<Rightarrow> py_error + piece list" where
  "tool_line t =
     (case py_getitem t ''name'' of
        Inl e \<Rightarrow> Inl e
      | Inr n \<Rightarrow>
          (case t of
             JObj kvs \<Rightarrow>
               Inr [Text ''- `'', Str n, Text ''`: '',
                    Str (dict_get kvs ''description'' (JStr ''No description''))]
           | _ \<Rightarrow> Inl AttributeError))"

fun tool_lines :: "json list \<Rightarrow> py_error + piece list list" where
  "tool_lines [] = Inr []"
| "tool_lines (t # ts) =
     (case tool_line t of
        Inl e \<Rightarrow> Inl e
      | Inr l \<Rightarrow> (case tool_lines ts of Inl e \<Rightarrow> Inl e | Inr ls \<Rightarrow> Inr (l # ls)))"

text \<open>The expression \<^verbatim>\<open>int((1 - 5000/(tool_count * 500)) * 100)\<close> of the savings line.\<close>

definition savings_percent :: "int \<Rightarrow> py_error + int" where
  "savings_percent tool_count =
     (case py_truediv 5000 (tool_count * 500) of
        Inl e \<Rightarrow> Inl e
      | Inr d \<Rightarrow> Inr (py_int (float_mul (float_sub 1 d) 100)))"

text \<open>
  The content of \<^verbatim>\<open>SKILL.md\<close>: the tool list is built first, then the template is
  evaluated from top to bottom, the savings expression last. The figures 100, 5k and 0 are
  text of the template; \<^verbatim>\<open>{tool_count}\<close>, \<^verbatim>\<open>{tool_count * 500}\<close> and the savings are
  formatted integers.
\<close>

definition skill_md_content :: "generator \<Rightarrow> json list \<Rightarrow> py_error + skill_md" where
  "skill_md_content g tools =
     (case tool_lines tools of
        Inl e \<Rightarrow> Inl e
      | Inr tool_list \<Rightarrow>
          (let tool_count = int (length tools)
           in case savings_percent tool_count of
                Inl e \<Rightarrow> Inl e
              | Inr savings \<Rightarrow>
                  Inr \<lparr>md_name = self_server_name g,
                       md_tool_count = tool_count,
                       md_transport = get_transport_type g,
                       md_context_efficiency =
                         [ [Text ''## Context Efficiency''],
                           [],
                           [Text ''Traditional MCP approach:''],
                           [Text ''- All '', Num tool_count, Text '' tools loaded at startup''],
                           [Text ''- Estimated context: '', Num (tool_count * 500), Text '' tokens''],
                           [],
                           [Text ''This skill approach:''],
                           [Text ''- Metadata only: ~100 tokens''],
                           [Text ''- Full instructions (when used): ~5k tokens''],
                           [Text ''- Tool execution: 0 tokens (runs externally)''] ],
                       md_tool_list = tool_list,
                       md_performance_notes =
                         [ [Text ''## Performance Notes''],
                           [],
                           [Text ''Context usage comparison for this skill:''],
                           [],
                           [Text ''| Scenario | MCP (preload) | Skill (dynamic) |''],
                           [Text ''|----------|---------------|-----------------|''],
                           [Text ''| Idle | '', Num (tool_count * 500), Text '' tokens | 100 tokens |''],
                           [Text ''| Active | '', Num (tool_count * 500), Text '' tokens | 5k tokens |''],
                           [Text ''| Executing | '', Num (tool_count * 500), Text '' tokens | 0 tokens |''],
                           [],
                           [Text ''Savings: ~'', Num savings, Text ''% reduction in typical usage''] ]\<rparr>))"

text \<open>
  \<^verbatim>\<open>_generate_skill_md\<close>: an exception in the template leaves the world as it was; otherwise
  the file is written and its path printed.
\<close>

definition generate_skill_md :: "generator \<Rightarrow> json list \<Rightarrow> world \<Rightarrow> py_error option \<times> world" where
  "generate_skill_md g tools w =
     (case skill_md_content g tools of
        Inl e \<Rightarrow> (Some e, w)
      | Inr content \<Rightarrow>
          (let skill_path = self_output_dir g @ [''SKILL.md'']
           in (None, print_line [Text ''Generated: '', PathStr skill_path]
                       (write_file skill_path (SkillMdFile content) w))))"

definition generate_executor :: "generator \<Rightarrow> world \<Rightarrow> world" where
  "generate_executor g w =
     (let executor_path = self_output_dir g @ [''executor.py'']
      in print_line [Text ''Generated: '', PathStr executor_path]
           (write_file executor_path ExecutorFile w))"

text \<open>\<^verbatim>\<open>_generate_config\<close>: \<^verbatim>\<open>json.dump(self.mcp_config, f, indent=2)\<close>.\<close>

definition generate_config :: "generator \<Rightarrow> world \<Rightarrow> world" where
  "generate_config g w =
     (let config_path = self_output_dir g @ [''mcp-config.json'']
      in print_line [Text ''Generated: '', PathStr config_path]
           (write_file config_path (JsonFile (JObj (self_mcp_config g))) w))"

text \<open>
  \<^verbatim>\<open>_generate_package_json\<close>; the two formatted strings of the package are kept as pieces.
\<close>

definition generate_package_json :: "generator \<Rightarrow> world \<Rightarrow> world" where
  "generate_package_json g w =
     (let package_path = self_output_dir g @ [''package.json'']
      in print_line [Text ''Generated: '', PathStr package_path]
           (write_file package_path
              (PackageFile [Text ''skill-'', Str (self_server_name g)]
                           [Text ''Claude Skill wrapper for '', Str (self_server_name g), Text '' MCP server''])
              w))"

text \<open>\<^verbatim>\<open>generate\<close>: the five steps in order; an exception ends it.\<close>

definition generate :: "generator \<Rightarrow> world \<Rightarrow> py_error option \<times> world" where
  "generate g w =
     (let w1 = print_line [Text ''Generating skill for MCP server: '', Str (self_server_name g)] w;
          (tools, w2) = get_mcp_tools g w1
      in case generate_skill_md g tools w2 of
           (Some e, w3) \<Rightarrow> (Some e, w3)
         | (None, w3) \<Rightarrow>
             (let w4 = generate_executor g w3;
                  w5 = generate_config g w4;
                  w6 = generate_package_json g w5;
                  w7 = print_line [Text ''Skill generated at: '', PathStr (self_output_dir g)] w6
              in (None, print_line [Text ''Tools available: '', Num (int (length tools))] w7)))"

section \<open>The conversion (\<^verbatim>\<open>convert_mcp_to_skill\<close>)\<close>

text \<open>
  The loop over the parsed servers. \<^verbatim>\<open>config.get\<close> needs a dictionary and
  \<^verbatim>\<open>output_base / name\<close> a string; the name is taken as one path component. Of the
  closing banner only the line with the number of skills is kept.
\<close>

fun convert_servers :: "path \<Rightarrow> json list \<Rightarrow> world \<Rightarrow> py_error option \<times> world" where
  "convert_servers output_base [] w = (None, w)"
| "convert_servers output_base (config # rest) w =
     (case config of
        JObj kvs \<Rightarrow>
          (case dict_get kvs ''name'' (JStr ''unnamed-mcp-server'') of
             JStr name \<Rightarrow>
               (case generate (new_generator kvs (output_base @ [name])) w of
                  (Some e, w') \<Rightarrow> (Some e, w')
                | (None, w') \<Rightarrow> convert_servers output_base rest w')
           | _ \<Rightarrow> (Some TypeError, w))
      | _ \<Rightarrow> (Some AttributeError, w))"

definition convert_mcp_to_skill :: "path \<Rightarrow> path \<Rightarrow> string option \<Rightarrow> world \<Rightarrow> py_error option \<times> world" where
  "convert_mcp_to_skill mcp_config_path output_base server_name w =
     (case parse_mcp_config (files w) mcp_config_path server_name of
        Inl e \<Rightarrow> (Some e, w)
      | Inr servers \<Rightarrow>
          (if servers = []
           then (case server_name of
                   Some (c # cs) \<Rightarrow>
                     (None, print_line [Text ''Error: Server '', Text [CHR 0x27], Str (JStr (c # cs)),
                                        Text [CHR 0x27], Text '' not found in config''] w)
                 | _ \<Rightarrow> (None, print_line [Text ''Error: No servers found in config''] w))
           else (case convert_servers output_base servers w of
                   (Some e, w') \<Rightarrow> (Some e, w')
                 | (None, w') \<Rightarrow>
                     (None, print_line [Text ''Generated '', Num (int (length servers)), Text '' skill(s)!''] w'))))"

section \<open>The generated executor (\<^verbatim>\<open>executor.py\<close>)\<close>

text \<open>
  A tool as the client library reports it: an object with the attributes \<^verbatim>\<open>name\<close>,
  \<^verbatim>\<open>description\<close> and \<^verbatim>\<open>inputSchema\<close>.
\<close>

record tool =
  t_name :: string
  t_description :: json
  t_inputSchema :: json

text \<open>
  A content item of a call result is a Python value: an instance of a class of the client
  library, given by its attributes, or a plain value (dictionary, list, string, number).
  Only an instance can have an attribute \<^verbatim>\<open>text\<close>, and \<^verbatim>\<open>json.dumps\<close> serialises plain
  values only: on an instance of a class it raises \<^verbatim>\<open>TypeError\<close>.
\<close>

datatype content_item = Object "(string \<times> json) list" | Plain json

text \<open>\<^verbatim>\<open>response.content\<close>: a list of items, or some other value.\<close>

datatype call_content = Items "content_item list" | NotList content_item

text \<open>\<^verbatim>\<open>isinstance(result, list)\<close> and the items of the list.\<close>

fun as_list :: "call_content \<Rightarrow> content_item list option" where
  "as_list (Items xs) = Some xs"
| "as_list (NotList (Plain (JArr xs))) = Some (map Plain xs)"
| "as_list (NotList _) = None"

text \<open>
  An initialised session: what \<^verbatim>\<open>session.list_tools()\<close> answers (\<^verbatim>\<open>response.tools\<close>, or
  the exception raised) and what \<^verbatim>\<open>session.call_tool(name, arguments)\<close> answers.
\<close>

record session =
  list_tools_response :: "py_error + tool list"
  call_tool_response :: "json \<Rightarrow> json \<Rightarrow> py_error + call_content"

text \<open>The two transports of \<^verbatim>\<open>mcp_connection\<close>: the URL, or command, arguments and environment.\<close>

datatype transport = Http json | Stdio json json json

text \<open>
  \<^verbatim>\<open>mcp_connection\<close>: chooses the transport from the configuration; \<open>connect\<close> stands for
  the client library opening the channel and initialising the session.
\<close>

definition mcp_connection :: "(transport \<Rightarrow> py_error + session) \<Rightarrow> json \<Rightarrow> py_error + transport \<times> session" where
  "mcp_connection connect config =
     (case config of
        JObj kvs \<Rightarrow>
          (if dict_get kvs ''type'' (JStr ''stdio'') = JStr ''http''
           then (case py_getitem config ''url'' of
                   Inl e \<Rightarrow> Inl e
                 | Inr url \<Rightarrow>
                     (case connect (Http url) of
                        Inl e \<Rightarrow> Inl e
                      | Inr s \<Rightarrow> Inr (Http url, s)))
           else (case py_getitem config ''command'' of
                   Inl e \<Rightarrow> Inl e
                 | Inr command \<Rightarrow>
                     (let tr = Stdio command (dict_get kvs ''args'' (JArr [])) (dict_get kvs ''env'' JNull)
                      in case connect tr of
                           Inl e \<Rightarrow> Inl e
                         | Inr s \<Rightarrow> Inr (tr, s))))
      | _ \<Rightarrow> Inl AttributeError)"

text \<open>\<^verbatim>\<open>list_tools\<close>.\<close>

definition list_tools :: "session \<Rightarrow> py_error + json" where
  "list_tools s =
     (case list_tools_response s of
        Inl e \<Rightarrow> Inl e
      | Inr tools \<Rightarrow>
          Inr (JArr (map (\<lambda>t. JObj [(''name'', JStr (t_name t)), (''description'', t_description t)]) tools)))"

text \<open>\<^verbatim>\<open>describe_tool\<close>: the loop returns at the first tool with the name; \<open>None\<close> is \<^verbatim>\<open>None\<close>.\<close>

fun find_tool :: "tool list \<Rightarrow> string \<Rightarrow> json option" where
  "find_tool [] tool_name = None"
| "find_tool (t # ts) tool_name =
     (if t_name t = tool_name
      then Some (JObj [(''name'', JStr (t_name t)),
                       (''description'', t_description t),
                       (''inputSchema'', t_inputSchema t)])
      else find_tool ts tool_name)"

definition describe_tool :: "session \<Rightarrow> string \<Rightarrow> py_error + json option" where
  "describe_tool s tool_name =
     (case list_tools_response s of
        Inl e \<Rightarrow> Inl e
      | Inr tools \<Rightarrow> Inr (find_tool tools tool_name))"

text \<open>\<^verbatim>\<open>call_tool\<close>.\<close>

definition call_tool :: "session \<Rightarrow> json \<Rightarrow> json \<Rightarrow> py_error + call_content" where
  "call_tool s tool_name arguments = call_tool_response s tool_name arguments"

text \<open>
  \<^verbatim>\<open>item.text if hasattr(item, 'text') else json.dumps(item, indent=2)\<close>, the line that
  \<^verbatim>\<open>print\<close> writes for one item.
\<close>

fun render_item :: "content_item \<Rightarrow> py_error + piece list" where
  "render_item (Object attrs) =
     (case map_of attrs ''text'' of
        Some v \<Rightarrow> Inr [Str v]
      | None \<Rightarrow> Inl TypeError)"
| "render_item (Plain v) = Inr [Dumps v]"

text \<open>The loop over the items: the lines printed so far stay when an item raises.\<close>

fun print_items :: "content_item list \<Rightarrow> piece list list \<Rightarrow> py_error option \<times> piece list list" where
  "print_items [] out = (None, out)"
| "print_items (item # rest) out =
     (case render_item item of
        Inl e \<Rightarrow> (Some e, out)
      | Inr l \<Rightarrow> print_items rest (out @ [l]))"

text \<open>The command line after \<^verbatim>\<open>parse_args\<close>.\<close>

record args =
  arg_call :: "string option"
  arg_describe :: "string option"
  arg_list :: bool

text \<open>
  What one run of the executor meets: the files, the path of the script (\<^verbatim>\<open>__file__\<close>),
  whether the client library could be imported (\<^verbatim>\<open>HAS_MCP\<close>), the library opening a
  session, and \<^verbatim>\<open>json.loads\<close> on the text of \<^verbatim>\<open>--call\<close>.
\<close>

record exec_env =
  env_files :: filesystem
  env_script :: path
  env_has_mcp :: bool
  env_connect :: "transport \<Rightarrow> py_error + session"
  env_json_loads :: "string \<Rightarrow> py_error + json"

text \<open>
  What one run leaves: the lines on standard output and standard error, the exit code, and,
  for the record, the sessions that were opened and the operations (\<^verbatim>\<open>list_tools\<close>,
  \<^verbatim>\<open>describe_tool\<close>, \<^verbatim>\<open>call_tool\<close>) that were invoked.
\<close>

datatype operation = ListOp | DescribeOp string | CallOp json json

record outcome =
  out_stdout :: "piece list list"
  out_stderr :: "piece list list"
  exit_code :: int
  connections :: "transport list"
  operations :: "operation list"

definition print_out :: "piece list \<Rightarrow> outcome \<Rightarrow> outcome" where
  "print_out l out = out\<lparr>out_stdout := out_stdout out @ [l]\<rparr>"

definition print_err :: "piece list \<Rightarrow> outcome \<Rightarrow> outcome" where
  "print_err l out = out\<lparr>out_stderr := out_stderr out @ [l]\<rparr>"

text \<open>\<^verbatim>\<open>sys.exit(1)\<close>.\<close>

definition exit_1 :: "outcome \<Rightarrow> outcome" where
  "exit_1 out = out\<lparr>exit_code := 1\<rparr>"

definition invoked :: "operation \<Rightarrow> outcome \<Rightarrow> outcome" where
  "invoked op out = out\<lparr>operations := operations out @ [op]\<rparr>"

text \<open>The start of a run: the import of the module prints a warning when the library is missing.\<close>

definition start :: "exec_env \<Rightarrow> outcome" where
  "start env =
     (let out = \<lparr>out_stdout = [], out_stderr = [], exit_code = 0, connections = [], operations = []\<rparr>
      in if env_has_mcp env then out
         else print_err [Text ''Warning: mcp package not installed. Install with: pip install mcp''] out)"

text \<open>\<^verbatim>\<open>except Exception as e: print(f"Error: {e}", file=sys.stderr); sys.exit(1)\<close>.\<close>

definition error_line :: "py_error \<Rightarrow> piece list" where
  "error_line e = [Text ''Error: '', ErrStr e]"

definition caught :: "py_error \<Rightarrow> outcome \<Rightarrow> outcome" where
  "caught e out = exit_1 (print_err (error_line e) out)"

text \<open>\<^verbatim>\<open>call_data.get("arguments", {})\<close>, reached once \<^verbatim>\<open>call_data["tool"]\<close> has a value.\<close>

definition call_arguments :: "json \<Rightarrow> json" where
  "call_arguments call_data =
     (case call_data of
        JObj kvs \<Rightarrow> dict_get kvs ''arguments'' (JObj [])
      | _ \<Rightarrow> JObj [])"

text \<open>The first line of what \<^verbatim>\<open>parser.print_help()\<close> prints.\<close>

definition usage :: "piece list" where
  "usage = [Text ''usage: executor.py [-h] [--call CALL] [--describe DESCRIBE] [--list]'']"

text \<open>
  The \<^verbatim>\<open>if\<close>/\<^verbatim>\<open>elif\<close> chain of \<^verbatim>\<open>main\<close> inside the open session. A string option
  is true when it is given and not empty. \<^verbatim>\<open>sys.exit(1)\<close> after ``Tool not found'' is not
  an \<^verbatim>\<open>Exception\<close> and passes the \<^verbatim>\<open>except\<close> clause. Of \<^verbatim>\<open>parser.print_help()\<close> the
  usage line is kept.
\<close>

definition dispatch :: "exec_env \<Rightarrow> args \<Rightarrow> session \<Rightarrow> outcome \<Rightarrow> outcome" where
  "dispatch env a s out =
     (if arg_list a then
        (case list_tools s of
           Inl e \<Rightarrow> caught e (invoked ListOp out)
         | Inr tools \<Rightarrow> print_out [Dumps tools] (invoked ListOp out))
      else if truthy_opt (arg_describe a) then
        (case arg_describe a of
           Some name \<Rightarrow>
             (case describe_tool s name of
                Inl e \<Rightarrow> caught e (invoked (DescribeOp name) out)
              | Inr (Some schema) \<Rightarrow> print_out [Dumps schema] (invoked (DescribeOp name) out)
              | Inr None \<Rightarrow>
                  exit_1 (print_err [Text ''Tool not found: '', Str (JStr name)]
                            (invoked (DescribeOp name) out)))
         | None \<Rightarrow> out)
      else if truthy_opt (arg_call a) then
        (case arg_call a of
           Some text \<Rightarrow>
             (case env_json_loads env text of
                Inl e \<Rightarrow> caught e out
              | Inr call_data \<Rightarrow>
                  (case py_getitem call_data ''tool'' of
                     Inl e \<Rightarrow> caught e out
                   | Inr tool_name \<Rightarrow>
                       (let arguments = call_arguments call_data;
                            out1 = invoked (CallOp tool_name arguments) out
                        in case call_tool s tool_name arguments of
                             Inl e \<Rightarrow> caught e out1
                           | Inr result \<Rightarrow>
                               (case as_list result of
                                  Some items \<Rightarrow>
                                    (case print_items items (out_stdout out1) of
                                       (Some e, lines) \<Rightarrow> caught e (out1\<lparr>out_stdout := lines\<rparr>)
                                     | (None, lines) \<Rightarrow> out1\<lparr>out_stdout := lines\<rparr>)
                                | None \<Rightarrow>
                                    (case result of
                                       NotList (Plain v) \<Rightarrow> print_out [Dumps v] out1
                                     | _ \<Rightarrow> caught TypeError out1)))))
         | None \<Rightarrow> out)
      else print_out usage out)"

text \<open>
  The configuration of a run: \<^verbatim>\<open>Path(__file__).parent / "mcp-config.json"\<close>, read with
  \<^verbatim>\<open>json.load\<close>.
\<close>

definition config_path_of :: "exec_env \<Rightarrow> path" where
  "config_path_of env = butlast (env_script env) @ [''mcp-config.json'']"

definition load_config :: "exec_env \<Rightarrow> py_error + json" where
  "load_config env = json_load (env_files env) (config_path_of env)"

text \<open>
  \<^verbatim>\<open>main\<close>. An exception of \<^verbatim>\<open>json.load\<close> is outside the \<^verbatim>\<open>try\<close>: the interpreter
  prints the traceback and exits with code 1.
\<close>

definition main :: "exec_env \<Rightarrow> args \<Rightarrow> outcome" where
  "main env a =
     (case env_files env (config_path_of env) of
        None \<Rightarrow>
          exit_1 (print_err [Text ''Error: Config not found: '', PathStr (config_path_of env)] (start env))
      | Some _ \<Rightarrow>
          (case load_config env of
             Inl e \<Rightarrow> exit_1 (print_err [Text ''Traceback: '', ErrStr e] (start env))
           | Inr config \<Rightarrow>
               (if \<not> env_has_mcp env
                then exit_1 (print_err [Text ''Error: mcp package not installed. Install with: pip install mcp'']
                               (start env))
                else (case mcp_connection (env_connect env) config of
                        Inl e \<Rightarrow> caught e (start env)
                      | Inr (tr, s) \<Rightarrow> dispatch env a s ((start env)\<lparr>connections := [tr]\<rparr>)))))"

section \<open>The specification's formulas\<close>

text \<open>
  The savings figure as the specification words it:
  \<open>round((1 - active_tokens / baseline_tokens) * 100)\<close> with \<open>active_tokens = 5000\<close> and
  \<open>baseline_tokens = tool_count * 500\<close>, in exact arithmetic.
\<close>

definition savings_percent_spec :: "int \<Rightarrow> int" where
  "savings_percent_spec tool_count = round ((1 - 5000 / rat_of_int (tool_count * 500)) * 100)"

text \<open>
  The catalog fetch as the specification words it: one session to the configured server and
  the descriptors that \<open>list()\<close> reports; a single-entry placeholder only when the server
  cannot be reached. \<open>fetch_allowed connect config r\<close> says that \<open>r\<close> is a result the
  specification allows.
\<close>

definition fetch_allowed :: "(transport \<Rightarrow> py_error + session) \<Rightarrow> json \<Rightarrow> json list \<Rightarrow> bool" where
  "fetch_allowed connect config r =
     (case mcp_connection connect config of
        Inl e \<Rightarrow> length r = 1
      | Inr (tr, s) \<Rightarrow> list_tools s = Inr (JArr r))"

section \<open>A configured service for the scenarios\<close>

text \<open>
  The persisted configuration of a service \<^verbatim>\<open>weather\<close>, started as a local process. Its
  server reports one tool, \<^verbatim>\<open>lookup\<close>, and answers every call with one image item (an
  object with the attributes \<^verbatim>\<open>type\<close>, \<^verbatim>\<open>data\<close> and \<^verbatim>\<open>mimeType\<close>, no \<^verbatim>\<open>text\<close>).
\<close>

definition weather_config :: "(string \<times> json) list" where
  "weather_config =
     [(''name'', JStr ''weather''), (''command'', JStr ''wx-server''),
      (''args'', JArr [JStr ''--mode'', JStr ''json''])]"

definition lookup_tool :: tool where
  "lookup_tool =
     \<lparr>t_name = ''lookup'', t_description = JStr ''Look up the weather of a city'',
      t_inputSchema = JObj [(''type'', JStr ''object'')]\<rparr>"

definition image_item :: content_item where
  "image_item = Object [(''type'', JStr ''image''), (''data'', JStr ''iVBORw0KGgo=''),
                        (''mimeType'', JStr ''image/png'')]"

definition weather_session :: session where
  "weather_session =
     \<lparr>list_tools_response = Inr [lookup_tool],
      call_tool_response = (\<lambda>tool_name arguments. Inr (Items [image_item]))\<rparr>"

definition weather_connect :: "transport \<Rightarrow> py_error + session" where
  "weather_connect tr = Inr weather_session"

text \<open>
  A run of the executor generated into \<^verbatim>\<open>skills/weather\<close>; the text of \<^verbatim>\<open>--call\<close> is
  read as the call of the tool \<^verbatim>\<open>radar\<close> without arguments.
\<close>

definition weather_env :: exec_env where
  "weather_env =
     \<lparr>env_files = (\<lambda>p. if p = [''skills'', ''weather'', ''mcp-config.json'']
                         then Some (JsonFile (JObj weather_config)) else None),
      env_script = [''skills'', ''weather'', ''executor.py''],
      env_has_mcp = True,
      env_connect = weather_connect,
      env_json_loads = (\<lambda>text. Inr (JObj [(''tool'', JStr ''radar'')]))\<rparr>"

definition no_request :: args where
  "no_request = \<lparr>arg_call = None, arg_describe = None, arg_list = False\<rparr>"

definition list_and_describe :: args where
  "list_and_describe = \<lparr>arg_call = None, arg_describe = Some ''lookup'', arg_list = True\<rparr>"

definition call_radar :: args where
  "call_radar = \<lparr>arg_call = Some ''{tool: radar}'', arg_describe = None, arg_list = False\<rparr>"

text \<open>The world before the conversion: the single-service configuration in \<^verbatim>\<open>server.json\<close>.\<close>

definition weather_world :: world where
  "weather_world =
     \<lparr>files = (\<lambda>p. if p = [''server.json''] then Some (JsonFile (JObj weather_config)) else None),
      printed = []\<rparr>"

definition weather_generator :: generator where
  "weather_generator = new_generator weather_config [''skills'', ''weather'']"

text \<open>
  A configuration file of the \<^verbatim>\<open>mcpServers\<close> shape with two entries, the first under the
  empty name.
\<close>

definition two_servers :: json where
  "two_servers =
     JObj [(''mcpServers'',
            JObj [([], JObj [(''command'', JStr ''anon-server'')]),
                  (''weather'', JObj [(''command'', JStr ''wx-server'')])])]"

definition two_servers_files :: filesystem where
  "two_servers_files = (\<lambda>p. if p = [''mcp.json''] then Some (JsonFile two_servers) else None)"

section \<open>Unfolding a run\<close>

lemmas run_defs = main_def config_path_of_def load_config_def json_load_def
      mcp_connection_def dict_get_def dispatch_def start_def print_out_def
      call_tool_def invoked_def caught_def list_tools_def describe_tool_def
      print_err_def exit_1_def error_line_def call_arguments_def

lemmas weather_defs = weather_env_def weather_config_def weather_connect_def weather_session_def
      image_item_def lookup_tool_def no_request_def list_and_describe_def call_radar_def

section \<open>Properties of the configuration parser\<close>

lemma collect_servers_no_filter:
  "\<not> truthy_opt server_name \<Longrightarrow>
   collect_servers server_name acc (map body_entry es) = Inr (acc @ map named_entry es)"
  by (induction es arbitrary: acc) (auto simp: body_entry_def named_entry_def)

lemma collect_servers_filter:
  "s \<noteq> [] \<Longrightarrow>
   collect_servers (Some s) acc (map body_entry es)
     = Inr (acc @ map named_entry (filter (\<lambda>e. fst e = s) es))"
  by (induction es arbitrary: acc) (auto simp: body_entry_def named_entry_def)

lemma parse_mcp_data_servers:
  assumes "map_of d ''mcpServers'' = Some (JObj entries)"
  shows "parse_mcp_data (JObj d) server_name = collect_servers server_name [] entries"
proof -
  from assms have "''mcpServers'' \<in> set (map fst d)"
    by (metis map_of_eq_None_iff option.distinct(1) set_map)
  with assms show ?thesis
    by (simp add: parse_mcp_data_def)
qed

lemma named_entry_name: "py_getitem (named_entry e) ''name'' = Inr (JStr (fst e))"
  by (simp add: named_entry_def update_conv')

lemma named_entry_other:
  "k \<noteq> ''name'' \<Longrightarrow> py_getitem (named_entry e) k = py_getitem (JObj (snd e)) k"
  by (simp add: named_entry_def update_conv')

lemma filter_key_distinct:
  "distinct (map fst es) \<Longrightarrow>
   filter (\<lambda>e. fst e = s) es = (case map_of es s of None \<Rightarrow> [] | Some b \<Rightarrow> [(s, b)])"
proof (induction es)
  case Nil
  then show ?case by simp
next
  case (Cons e es)
  obtain k b where e: "e = (k, b)" by (cases e)
  show ?case
  proof (cases "k = s")
    case True
    with Cons.prems e have "filter (\<lambda>e. fst e = s) es = []"
      by (fastforce simp: filter_empty_conv image_iff)
    with True e show ?thesis by simp
  next
    case False
    with Cons e show ?thesis by simp
  qed
qed

lemma parse_mcp_data_shape:
  assumes "mcpServers_shape data es"
  shows "parse_mcp_data data server_name = collect_servers server_name [] (map body_entry es)"
  using assms
  by (cases data) (auto simp: mcpServers_shape_def parse_mcp_data_servers)

lemma parse_mcp_data_object_invalid:
  assumes "''mcpServers'' \<notin> set (map fst d)" "''command'' \<notin> set (map fst d)" "''url'' \<notin> set (map fst d)"
  shows "parse_mcp_data (JObj d) server_name = Inl (ValueError invalid_config_format)"
  using assms by (simp add: parse_mcp_data_def)

text \<open>
  C3, amended. For a document of the \<^verbatim>\<open>mcpServers\<close> shape with entries \<open>es\<close> and no filter,
  the parser returns one record per entry, in the order of the entries; the \<^verbatim>\<open>name\<close> field
  of the \<open>i\<close>-th record is the \<open>i\<close>-th key and every other field is the one of the \<open>i\<close>-th
  body. With a non-empty filter name \<open>s\<close> the result is the record of the entry whose key is
  \<open>s\<close> alone, or no record when there is none. The empty filter name is treated like no
  filter: all records are returned.
\<close>

theorem parse_mcp_config_mcpServers:
  assumes "fs config_path = Some (JsonFile data)" and "mcpServers_shape data es"
  shows "(\<exists>rs. parse_mcp_config fs config_path None = Inr rs \<and> length rs = length es \<and>
            (\<forall>i < length es.
               py_getitem (rs ! i) ''name'' = Inr (JStr (fst (es ! i))) \<and>
               (\<forall>k. k \<noteq> ''name'' \<longrightarrow> py_getitem (rs ! i) k = py_getitem (JObj (snd (es ! i))) k))) \<and>
         (\<forall>s. s \<noteq> [] \<longrightarrow>
            parse_mcp_config fs config_path (Some s)
              = Inr (case map_of es s of None \<Rightarrow> [] | Some b \<Rightarrow> [named_entry (s, b)])) \<and>
         parse_mcp_config fs config_path (Some []) = parse_mcp_config fs config_path None"
proof -
  have all: "parse_mcp_config fs config_path server_name = Inr (map named_entry es)"
    if "\<not> truthy_opt server_name" for server_name
    using assms that
    by (simp add: parse_mcp_config_def json_load_def parse_mcp_data_shape collect_servers_no_filter)
  have none: "parse_mcp_config fs config_path None = Inr (map named_entry es)"
    by (rule all) simp
  have empty: "parse_mcp_config fs config_path (Some []) = Inr (map named_entry es)"
    by (rule all) simp
  have 1: "\<exists>rs. parse_mcp_config fs config_path None = Inr rs \<and> length rs = length es \<and>
            (\<forall>i < length es.
               py_getitem (rs ! i) ''name'' = Inr (JStr (fst (es ! i))) \<and>
               (\<forall>k. k \<noteq> ''name'' \<longrightarrow> py_getitem (rs ! i) k = py_getitem (JObj (snd (es ! i))) k))"
    by (simp add: none named_entry_name named_entry_other)
  have 2: "parse_mcp_config fs config_path (Some s)
          = Inr (case map_of es s of None \<Rightarrow> [] | Some b \<Rightarrow> [named_entry (s, b)])"
    if s: "s \<noteq> []" for s
  proof -
    from assms(2) have dist: "distinct (map fst es)"
      by (cases data) (auto simp: mcpServers_shape_def)
    have "parse_mcp_config fs config_path (Some s)
            = Inr (map named_entry (filter (\<lambda>e. fst e = s) es))"
      using assms s
      by (simp add: parse_mcp_config_def json_load_def parse_mcp_data_shape collect_servers_filter)
    also have "map named_entry (filter (\<lambda>e. fst e = s) es)
            = (case map_of es s of None \<Rightarrow> [] | Some b \<Rightarrow> [named_entry (s, b)])"
      by (simp add: filter_key_distinct [OF dist] split: option.splits)
    finally show ?thesis .
  qed
  from 1 2 none empty show ?thesis by simp
qed

text \<open>
  The scenario of the specification: one entry \<^verbatim>\<open>weather\<close> with a command and two arguments.
\<close>

theorem parse_mcp_config_mcpServers_witness:
  "parse_mcp_config
     (\<lambda>p. if p = [''mcp.json'']
          then Some (JsonFile (JObj [(''mcpServers'',
                  JObj [(''weather'', JObj [(''command'', JStr ''wx-server''),
                                            (''args'', JArr [JStr ''--mode'', JStr ''json''])])])]))
          else None)
     [''mcp.json''] (Some ''weather'')
   = Inr [JObj [(''command'', JStr ''wx-server''),
                (''args'', JArr [JStr ''--mode'', JStr ''json'']),
                (''name'', JStr ''weather'')]]"
proof -
  let ?es = "[(''weather'', [(''command'', JStr ''wx-server''),
                             (''args'', JArr [JStr ''--mode'', JStr ''json''])])]"
  let ?data = "JObj [(''mcpServers'', JObj (map body_entry ?es))]"
  let ?fs = "\<lambda>p. if p = [''mcp.json''] then Some (JsonFile ?data) else None"
  have f: "?fs [''mcp.json''] = Some (JsonFile ?data)" by simp
  have sh: "mcpServers_shape ?data ?es" by (simp add: mcpServers_shape_def)
  from parse_mcp_config_mcpServers [of ?fs "[''mcp.json'']" ?data ?es] f sh
  have "parse_mcp_config ?fs [''mcp.json''] (Some ''weather'')
          = Inr (case map_of ?es ''weather'' of None \<Rightarrow> [] | Some b \<Rightarrow> [named_entry (''weather'', b)])"
    by blast
  then show ?thesis by (simp add: named_entry_def body_entry_def cong: if_cong)
qed

text \<open>
  C3, as the claim states it: with the empty filter name given, on a map with the two keys
  \<^verbatim>\<open>""\<close> and \<^verbatim>\<open>weather\<close>, the parser returns both records, not the record of the entry
  with that key alone.
\<close>

theorem parse_mcp_config_empty_filter:
  "parse_mcp_config two_servers_files [''mcp.json''] (Some [])
     = Inr [JObj [(''command'', JStr ''anon-server''), (''name'', JStr [])],
            JObj [(''command'', JStr ''wx-server''), (''name'', JStr ''weather'')]]"
  by (simp add: parse_mcp_config_def json_load_def parse_mcp_data_def two_servers_files_def
      two_servers_def)

text \<open>
  C8. A document that is a JSON array holding the string \<^verbatim>\<open>url\<close> is neither a map with an
  \<^verbatim>\<open>mcpServers\<close> key nor a body with a \<^verbatim>\<open>command\<close> or \<^verbatim>\<open>url\<close> key, and the parser
  returns it as a record instead of raising \<^verbatim>\<open>ValueError\<close>: the membership tests of the
  source hold of lists and strings too.
\<close>

theorem parse_mcp_config_array_accepted:
  "parse_mcp_config (\<lambda>p. Some (JsonFile (JArr [JStr ''url'']))) config_path None
     = Inr [JArr [JStr ''url'']]"
  by (simp add: parse_mcp_config_def json_load_def parse_mcp_data_def)

section \<open>Properties of the skill generator\<close>

lemma savings_percent_cases:
  "savings_percent n =
     (if n = 0 then Inl ZeroDivisionError
      else Inr (py_int (float_mul (float_sub 1 (to_double (5000 / rat_of_int (n * 500)))) 100)))"
  by (simp add: savings_percent_def py_truediv_def)

lemma tool_lines_ok:
  "\<forall>t \<in> set tools. \<exists>kvs. t = JObj kvs \<and> ''name'' \<in> set (map fst kvs) \<Longrightarrow>
   \<exists>ls. tool_lines tools = Inr ls"
proof (induction tools)
  case Nil
  then show ?case by simp
next
  case (Cons t ts)
  then obtain kvs where t: "t = JObj kvs" "''name'' \<in> set (map fst kvs)" by auto
  then obtain v where "map_of kvs ''name'' = Some v"
    by (metis map_of_eq_None_iff not_Some_eq set_map)
  with t have "\<exists>l. tool_line t = Inr l" by (simp add: tool_line_def)
  moreover from Cons have "\<exists>ls. tool_lines ts = Inr ls" by simp
  ultimately show ?case by auto
qed

lemma skill_md_content_defined:
  assumes "tools \<noteq> []"
    and "\<forall>t \<in> set tools. \<exists>kvs. t = JObj kvs \<and> ''name'' \<in> set (map fst kvs)"
  shows "\<exists>doc. skill_md_content g tools = Inr doc"
proof -
  from assms(2) obtain ls where "tool_lines tools = Inr ls"
    using tool_lines_ok by blast
  moreover from assms(1) have "int (length tools) \<noteq> 0" by simp
  ultimately show ?thesis
    by (simp add: skill_md_content_def Let_def savings_percent_cases)
qed

text \<open>
  C10. For the empty catalog the savings expression divides by zero: the template raises
  \<^verbatim>\<open>ZeroDivisionError\<close>, \<^verbatim>\<open>_generate_skill_md\<close> writes no document and leaves the world as
  it was. The savings figure is defined exactly when the tool count is not zero.
\<close>

theorem empty_catalog_fails:
  "savings_percent 0 = Inl ZeroDivisionError \<and>
   skill_md_content g [] = Inl ZeroDivisionError \<and>
   generate_skill_md g [] w = (Some ZeroDivisionError, w) \<and>
   ((\<exists>v. savings_percent tool_count = Inr v) = (tool_count \<noteq> 0))"
  by (simp add: savings_percent_cases skill_md_content_def generate_skill_md_def)

text \<open>
  C2. \<^verbatim>\<open>_get_mcp_tools\<close> returns its fixed one-tool list whatever the server is. For the
  configuration \<^verbatim>\<open>weather\<close>, whose server can be reached and reports the tool
  \<^verbatim>\<open>lookup\<close>, the specification allows the reported catalog and not the fixed list.
\<close>

theorem get_mcp_tools_is_mock:
  "fst (get_mcp_tools (new_generator weather_config [''skills'', ''weather'']) w) = mock_tools \<and>
   \<not> fetch_allowed weather_connect (JObj weather_config) mock_tools \<and>
   fetch_allowed weather_connect (JObj weather_config)
     [JObj [(''name'', JStr ''lookup''), (''description'', JStr ''Look up the weather of a city'')]]"
  by (simp add: get_mcp_tools_def fetch_allowed_def run_defs weather_defs mock_tools_def Let_def)

lemma get_mcp_tools_const: "fst (get_mcp_tools g w) = mock_tools"
  by (simp add: get_mcp_tools_def Let_def)

section \<open>Properties of the executor\<close>

lemma find_tool_absent: "tool_name \<notin> t_name ` set tools \<Longrightarrow> find_tool tools tool_name = None"
  by (induction tools) auto

lemma find_tool_present:
  "tool_name \<in> t_name ` set tools \<Longrightarrow>
   \<exists>t \<in> set tools. t_name t = tool_name \<and>
     find_tool tools tool_name
       = Some (JObj [(''name'', JStr tool_name), (''description'', t_description t),
                     (''inputSchema'', t_inputSchema t)])"
  by (induction tools) auto

text \<open>
  C5. When the session answers \<^verbatim>\<open>list_tools\<close> with a catalog, \<^verbatim>\<open>describe_tool\<close> returns
  \<^verbatim>\<open>None\<close> for a name that no tool of the catalog has, and for a name that is there the
  dictionary of name, description and input schema of a tool with that name; it raises in
  neither case.
\<close>

theorem describe_tool_total:
  assumes "list_tools_response s = Inr tools"
  shows "(tool_name \<notin> t_name ` set tools \<longrightarrow> describe_tool s tool_name = Inr None) \<and>
         (tool_name \<in> t_name ` set tools \<longrightarrow>
            (\<exists>t \<in> set tools. t_name t = tool_name \<and>
               describe_tool s tool_name
                 = Inr (Some (JObj [(''name'', JStr tool_name), (''description'', t_description t),
                                    (''inputSchema'', t_inputSchema t)]))))"
  using assms find_tool_absent [of tool_name tools] find_tool_present [of tool_name tools]
  by (auto simp: describe_tool_def)

theorem describe_tool_total_witness:
  "describe_tool weather_session ''forecast'' = Inr None \<and>
   describe_tool weather_session ''lookup''
     = Inr (Some (JObj [(''name'', JStr ''lookup''),
                        (''description'', JStr ''Look up the weather of a city''),
                        (''inputSchema'', JObj [(''type'', JStr ''object'')])]))"
proof -
  have r: "list_tools_response weather_session = Inr [lookup_tool]"
    by (simp add: weather_session_def)
  from describe_tool_total [OF r, of "''forecast''"] describe_tool_total [OF r, of "''lookup''"]
  show ?thesis by (simp add: lookup_tool_def)
qed

text \<open>
  C6, as the claim states it: a run without \<^verbatim>\<open>--list\<close>, \<^verbatim>\<open>--describe\<close> and
  \<^verbatim>\<open>--call\<close> opens its session, performs none of the three operations and exits with
  code 0.
\<close>

theorem main_no_request:
  "operations (main weather_env no_request) = [] \<and>
   connections (main weather_env no_request)
     = [Stdio (JStr ''wx-server'') (JArr [JStr ''--mode'', JStr ''json'']) JNull] \<and>
   exit_code (main weather_env no_request) = 0"
  by (simp add: run_defs weather_defs)

lemma dispatch_selects:
  assumes "operations out = []"
  shows "connections (dispatch env a s out) = connections out"
    and "arg_list a \<Longrightarrow> operations (dispatch env a s out) = [ListOp]"
    and "\<not> arg_list a \<Longrightarrow> arg_describe a = Some name \<Longrightarrow> name \<noteq> [] \<Longrightarrow>
           operations (dispatch env a s out) = [DescribeOp name]"
    and "\<not> arg_list a \<Longrightarrow> \<not> truthy_opt (arg_describe a) \<Longrightarrow> arg_call a = Some call_text \<Longrightarrow> call_text \<noteq> [] \<Longrightarrow>
           operations (dispatch env a s out)
             = (case env_json_loads env call_text of
                  Inl e \<Rightarrow> []
                | Inr call_data \<Rightarrow>
                    (case py_getitem call_data ''tool'' of
                       Inl e \<Rightarrow> []
                     | Inr tool_name \<Rightarrow> [CallOp tool_name (call_arguments call_data)]))"
    and "\<not> arg_list a \<Longrightarrow> \<not> truthy_opt (arg_describe a) \<Longrightarrow> \<not> truthy_opt (arg_call a) \<Longrightarrow>
           dispatch env a s out = print_out usage out"
  using assms
  by (auto simp: dispatch_def invoked_def caught_def print_out_def print_err_def exit_1_def Let_def
           split: sum.splits option.splits prod.splits call_content.splits content_item.splits)

text \<open>
  C6, amended. Every run opens at most one session and performs at most one of the three
  operations, and none without an open session. The options are not mutually exclusive:
  none is rejected when given with another, and in the open session the first one requested
  in the order \<^verbatim>\<open>--list\<close>, \<^verbatim>\<open>--describe\<close>, \<^verbatim>\<open>--call\<close> decides (an empty argument counts as
  not requested). A requested list or describe is performed. A requested call is performed,
  with the tool and the arguments of its JSON text, when the text can be read and has an entry
  \<^verbatim>\<open>tool\<close>; when the text cannot be read or has no such entry, nothing is performed. With
  nothing requested no operation is performed, the usage is printed and the exit code is 0.
\<close>

theorem main_at_most_one_operation:
  "length (operations (main env a)) \<le> 1 \<and> length (connections (main env a)) \<le> 1 \<and>
   (connections (main env a) = [] \<longrightarrow> operations (main env a) = []) \<and>
   (connections (main env a) \<noteq> [] \<longrightarrow>
      (arg_list a \<longrightarrow> operations (main env a) = [ListOp]) \<and>
      (\<forall>name. \<not> arg_list a \<and> arg_describe a = Some name \<and> name \<noteq> [] \<longrightarrow>
         operations (main env a) = [DescribeOp name]) \<and>
      (\<forall>call_text. \<not> arg_list a \<and> \<not> truthy_opt (arg_describe a) \<and> arg_call a = Some call_text \<and> call_text \<noteq> [] \<longrightarrow>
         (\<forall>e. env_json_loads env call_text = Inl e \<longrightarrow> operations (main env a) = []) \<and>
         (\<forall>call_data e. env_json_loads env call_text = Inr call_data \<and> py_getitem call_data ''tool'' = Inl e \<longrightarrow>
            operations (main env a) = []) \<and>
         (\<forall>call_data tool_name.
            env_json_loads env call_text = Inr call_data \<and> py_getitem call_data ''tool'' = Inr tool_name \<longrightarrow>
            operations (main env a) = [CallOp tool_name (call_arguments call_data)])) \<and>
      (\<not> arg_list a \<and> \<not> truthy_opt (arg_describe a) \<and> \<not> truthy_opt (arg_call a) \<longrightarrow>
         operations (main env a) = [] \<and> out_stdout (main env a) = [usage] \<and> exit_code (main env a) = 0))"
proof (cases "\<exists>config tr s. env_files env (config_path_of env) \<noteq> None \<and> load_config env = Inr config \<and>
          env_has_mcp env \<and> mcp_connection (env_connect env) config = Inr (tr, s)")
  case True
  then obtain config tr s where c: "env_files env (config_path_of env) \<noteq> None"
      "load_config env = Inr config" "env_has_mcp env"
      "mcp_connection (env_connect env) config = Inr (tr, s)" by blast
  let ?out = "(start env)\<lparr>connections := [tr]\<rparr>"
  from c have m: "main env a = dispatch env a s ?out"
    by (auto simp: main_def)
  have o: "operations ?out = []" "connections ?out = [tr]" "exit_code ?out = 0" "out_stdout ?out = []"
    using c(3) by (simp_all add: start_def print_err_def Let_def)
  note d = dispatch_selects [OF o(1), where env = env and a = a and s = s]
  have conn: "connections (main env a) = [tr]" by (simp add: m d(1) o(2))
  have l: "operations (main env a) = [ListOp]" if "arg_list a"
    using that by (simp add: m d(2))
  have ds: "operations (main env a) = [DescribeOp name]"
    if "\<not> arg_list a" "arg_describe a = Some name" "name \<noteq> []" for name
    using that by (simp add: m d(3))
  have cl: "operations (main env a)
             = (case env_json_loads env call_text of
                  Inl e \<Rightarrow> []
                | Inr call_data \<Rightarrow>
                    (case py_getitem call_data ''tool'' of
                       Inl e \<Rightarrow> []
                     | Inr tool_name \<Rightarrow> [CallOp tool_name (call_arguments call_data)]))"
    if "\<not> arg_list a" "\<not> truthy_opt (arg_describe a)" "arg_call a = Some call_text" "call_text \<noteq> []" for call_text
    using that by (simp add: m d(4))
  have h: "operations (main env a) = [] \<and> out_stdout (main env a) = [usage] \<and> exit_code (main env a) = 0"
    if "\<not> arg_list a" "\<not> truthy_opt (arg_describe a)" "\<not> truthy_opt (arg_call a)"
    using that o by (simp add: m d(5) print_out_def)
  have len: "length (operations (main env a)) \<le> 1"
  proof (cases "arg_list a")
    case True
    then show ?thesis by (simp add: l)
  next
    case nl: False
    show ?thesis
    proof (cases "truthy_opt (arg_describe a)")
      case True
      then obtain name where "arg_describe a = Some name" "name \<noteq> []"
        by (cases "arg_describe a") auto
      with nl show ?thesis by (simp add: ds)
    next
      case nd: False
      show ?thesis
      proof (cases "truthy_opt (arg_call a)")
        case True
        then obtain call_text where "arg_call a = Some call_text" "call_text \<noteq> []"
          by (cases "arg_call a") auto
        with nl nd show ?thesis by (simp add: cl split: sum.splits)
      next
        case False
        with nl nd show ?thesis by (simp add: h)
      qed
    qed
  qed
  from len conn l ds cl h show ?thesis by simp
next
  case False
  then have "operations (main env a) = [] \<and> connections (main env a) = []"
    by (auto simp: main_def start_def caught_def print_err_def exit_1_def Let_def
             split: option.splits sum.splits)
  then show ?thesis by simp
qed

theorem main_at_most_one_operation_witness:
  "operations (main weather_env list_and_describe) = [ListOp] \<and>
   operations (main weather_env call_radar) = [CallOp (JStr ''radar'') (JObj [])] \<and>
   out_stdout (main weather_env no_request) = [usage]"
proof -
  have c: "connections (main weather_env list_and_describe) \<noteq> []"
      "connections (main weather_env call_radar) \<noteq> []"
      "connections (main weather_env no_request) \<noteq> []"
    by (simp_all add: run_defs weather_defs)
  have l: "arg_list list_and_describe" by (simp add: list_and_describe_def)
  have r: "\<not> arg_list call_radar" "\<not> truthy_opt (arg_describe call_radar)"
      "arg_call call_radar = Some ''{tool: radar}''" "''{tool: radar}'' \<noteq> []"
      "env_json_loads weather_env ''{tool: radar}'' = Inr (JObj [(''tool'', JStr ''radar'')])"
      "py_getitem (JObj [(''tool'', JStr ''radar'')]) ''tool'' = Inr (JStr ''radar'')"
      "call_arguments (JObj [(''tool'', JStr ''radar'')]) = JObj []"
    by (simp_all add: call_radar_def weather_env_def call_arguments_def dict_get_def)
  have n: "\<not> arg_list no_request" "\<not> truthy_opt (arg_describe no_request)"
      "\<not> truthy_opt (arg_call no_request)"
    by (simp_all add: no_request_def)
  from main_at_most_one_operation [of weather_env list_and_describe] c(1) l
  have 1: "operations (main weather_env list_and_describe) = [ListOp]" by simp
  from main_at_most_one_operation [of weather_env call_radar] c(2) r
  have 2: "operations (main weather_env call_radar) = [CallOp (JStr ''radar'') (JObj [])]" by metis
  from main_at_most_one_operation [of weather_env no_request] c(3) n
  have 3: "out_stdout (main weather_env no_request) = [usage]" by simp
  from 1 2 3 show ?thesis by simp
qed

text \<open>
  The items that the loop of \<^verbatim>\<open>main\<close> renders: objects with a \<^verbatim>\<open>text\<close> attribute and
  plain values.
\<close>

lemma print_items_ok:
  "\<forall>item \<in> set items. (\<exists>attrs v. item = Object attrs \<and> map_of attrs ''text'' = Some v) \<or> (\<exists>v. item = Plain v) \<Longrightarrow>
   print_items items out =
     (None, out @ map (\<lambda>item. case item of
                                 Object attrs \<Rightarrow> [Str (the (map_of attrs ''text''))]
                               | Plain v \<Rightarrow> [Dumps v]) items)"
  by (induction items arbitrary: out) auto

text \<open>
  C7. A call whose result is one image item, an object without \<^verbatim>\<open>text\<close>: \<^verbatim>\<open>json.dumps\<close>
  raises \<^verbatim>\<open>TypeError\<close>, so the run prints nothing on standard output, reports the error
  and exits with code 1; the item is not serialised.
\<close>

theorem main_image_item:
  "main weather_env call_radar =
     \<lparr>out_stdout = [], out_stderr = [error_line TypeError], exit_code = 1,
      connections = [Stdio (JStr ''wx-server'') (JArr [JStr ''--mode'', JStr ''json'']) JNull],
      operations = [CallOp (JStr ''radar'') (JObj [])]\<rparr>"
  by (simp add: run_defs weather_defs)

section \<open>Persisting and re-loading the configuration\<close>

lemma generate_persists:
  "\<exists>w'. generate g w = (None, w') \<and>
        files w' (self_output_dir g @ [''executor.py'']) = Some ExecutorFile \<and>
        files w' (self_output_dir g @ [''mcp-config.json'']) = Some (JsonFile (JObj (self_mcp_config g)))"
proof -
  have "\<exists>doc. skill_md_content g mock_tools = Inr doc"
    using skill_md_content_defined [of mock_tools g] by (simp add: mock_tools_def)
  then obtain doc where "skill_md_content g mock_tools = Inr doc" ..
  then show ?thesis
    by (simp add: generate_def get_mcp_tools_def generate_skill_md_def generate_executor_def
        generate_config_def generate_package_json_def write_file_def print_line_def Let_def)
qed

text \<open>
  C9. A single-service configuration (a dictionary without \<^verbatim>\<open>mcpServers\<close>, with
  \<^verbatim>\<open>command\<close> or \<^verbatim>\<open>url\<close>, whose name is a string or absent) is converted without error;
  the executor is written beside \<^verbatim>\<open>mcp-config.json\<close>, and the configuration that this
  executor loads is the original dictionary, equal in every field.
\<close>

theorem config_round_trip:
  assumes "files w mcp_config_path = Some (JsonFile (JObj kvs))"
    and "''mcpServers'' \<notin> set (map fst kvs)"
    and "''command'' \<in> set (map fst kvs) \<or> ''url'' \<in> set (map fst kvs)"
    and "dict_get kvs ''name'' (JStr ''unnamed-mcp-server'') = JStr name"
  shows "\<exists>w'. convert_mcp_to_skill mcp_config_path output_base server_name w = (None, w') \<and>
           files w' (output_base @ [name, ''executor.py'']) = Some ExecutorFile \<and>
           (\<forall>env. env_files env = files w' \<and> env_script env = output_base @ [name, ''executor.py''] \<longrightarrow>
                  load_config env = Inr (JObj kvs))"
proof -
  let ?g = "new_generator kvs (output_base @ [name])"
  from assms(1-3) have p: "parse_mcp_config (files w) mcp_config_path server_name = Inr [JObj kvs]"
    by (cases "''command'' \<in> set (map fst kvs)")
       (simp_all add: parse_mcp_config_def json_load_def parse_mcp_data_def)
  obtain w1 where g: "generate ?g w = (None, w1)"
      "files w1 (self_output_dir ?g @ [''executor.py'']) = Some ExecutorFile"
      "files w1 (self_output_dir ?g @ [''mcp-config.json'']) = Some (JsonFile (JObj (self_mcp_config ?g)))"
    using generate_persists [of ?g w] by blast
  let ?w' = "print_line [Text ''Generated '', Num 1, Text '' skill(s)!''] w1"
  from p g(1) assms(4) have c: "convert_mcp_to_skill mcp_config_path output_base server_name w = (None, ?w')"
    by (simp add: convert_mcp_to_skill_def)
  from g(2,3) have f: "files ?w' (output_base @ [name, ''executor.py'']) = Some ExecutorFile"
      "files ?w' (output_base @ [name, ''mcp-config.json'']) = Some (JsonFile (JObj kvs))"
    by (simp_all add: print_line_def new_generator_def)
  have "load_config env = Inr (JObj kvs)"
    if "env_files env = files ?w' \<and> env_script env = output_base @ [name, ''executor.py'']" for env
    using that f(2) by (simp add: load_config_def config_path_of_def json_load_def butlast_append)
  with c f(1) show ?thesis by blast
qed

theorem config_round_trip_witness:
  "\<exists>w'. convert_mcp_to_skill [''server.json''] [''skills''] None weather_world = (None, w') \<and>
        files w' [''skills'', ''weather'', ''executor.py''] = Some ExecutorFile \<and>
        load_config (weather_env\<lparr>env_files := files w'\<rparr>) = Inr (JObj weather_config)"
proof -
  have 1: "files weather_world [''server.json''] = Some (JsonFile (JObj weather_config))"
    by (simp add: weather_world_def)
  have 2: "''mcpServers'' \<notin> set (map fst weather_config)"
    by (simp add: weather_config_def)
  have 3: "''command'' \<in> set (map fst weather_config) \<or> ''url'' \<in> set (map fst weather_config)"
    by (simp add: weather_config_def)
  have 4: "dict_get weather_config ''name'' (JStr ''unnamed-mcp-server'') = JStr ''weather''"
    by (simp add: weather_config_def dict_get_def)
  from config_round_trip [OF 1 2 3 4, of "[''skills'']" None]
  obtain w' where w': "convert_mcp_to_skill [''server.json''] [''skills''] None weather_world = (None, w')"
      "files w' ([''skills''] @ [''weather'', ''executor.py'']) = Some ExecutorFile"
      "\<forall>env. env_files env = files w' \<and> env_script env = [''skills''] @ [''weather'', ''executor.py''] \<longrightarrow>
             load_config env = Inr (JObj weather_config)"
    by blast
  have "env_files (weather_env\<lparr>env_files := files w'\<rparr>) = files w' \<and>
        env_script (weather_env\<lparr>env_files := files w'\<rparr>) = [''skills''] @ [''weather'', ''executor.py'']"
    by (simp add: weather_env_def)
  with w'(3) have "load_config (weather_env\<lparr>env_files := files w'\<rparr>) = Inr (JObj weather_config)"
    by blast
  with w'(1,2) show ?thesis by auto
qed

section \<open>Properties of the float operations\<close>

subsection \<open>Rounding to an integer\<close>

lemma round_even_cases:
  "round_even x = \<lfloor>x\<rfloor> \<or> round_even x = \<lfloor>x\<rfloor> + 1"
  by (simp add: round_even_def Let_def)

lemma round_even_error: "\<bar>of_int (round_even x) - x\<bar> \<le> 1 / 2"
proof -
  have f: "of_int \<lfloor>x\<rfloor> \<le> x" "x < of_int \<lfloor>x\<rfloor> + 1"
    by linarith+
  show ?thesis
  proof (cases "x - of_int \<lfloor>x\<rfloor> < 1 / 2")
    case True
    then have "round_even x = \<lfloor>x\<rfloor>" by (simp add: round_even_def Let_def)
    with True f show ?thesis by simp
  next
    case False
    show ?thesis
    proof (cases "round_even x = \<lfloor>x\<rfloor>")
      case True
      with False have "x - of_int \<lfloor>x\<rfloor> = 1 / 2"
        by (simp add: round_even_def Let_def split: if_splits)
      with True show ?thesis by simp
    next
      case r: False
      with round_even_cases [of x] have "round_even x = \<lfloor>x\<rfloor> + 1" by simp
      with False f show ?thesis by simp
    qed
  qed
qed

lemma round_even_ge: "of_int k \<le> x \<Longrightarrow> k \<le> round_even x"
proof -
  assume "of_int k \<le> x"
  then have "k \<le> \<lfloor>x\<rfloor>" by (simp add: le_floor_iff)
  with round_even_cases [of x] show ?thesis by auto
qed

lemma round_even_le: "x \<le> of_int k \<Longrightarrow> round_even x \<le> k"
proof -
  assume a: "x \<le> of_int k"
  show ?thesis
  proof (cases "x = of_int k")
    case True
    then show ?thesis by (simp add: round_even_def)
  next
    case False
    with a have "x < of_int k" by simp
    then have "\<lfloor>x\<rfloor> < k" by (simp add: floor_less_iff)
    with round_even_cases [of x] show ?thesis by auto
  qed
qed

lemma round_even_below_half: "x < of_int k - 1 / 2 \<Longrightarrow> round_even x \<le> k - 1"
proof -
  assume a: "x < of_int k - 1 / 2"
  then have "x < of_int k" by linarith
  then have f: "\<lfloor>x\<rfloor> \<le> k - 1" by (simp add: floor_less_iff)
  show ?thesis
  proof (cases "\<lfloor>x\<rfloor> = k - 1")
    case True
    with a have "x - of_int \<lfloor>x\<rfloor> < 1 / 2" by simp
    with True show ?thesis by (simp add: round_even_def Let_def)
  next
    case False
    with f round_even_cases [of x] show ?thesis by auto
  qed
qed

lemma round_even_tie_even:
  assumes "even k" "of_int k - 1 / 2 \<le> x" "x \<le> of_int k + 1 / 2"
  shows "round_even x = k"
proof -
  have "k - 1 \<le> \<lfloor>x\<rfloor>" using assms(2) by (simp add: le_floor_iff)
  moreover have "\<lfloor>x\<rfloor> \<le> k"
  proof -
    from assms(3) have "x < of_int (k + 1)" by simp
    then have "\<lfloor>x\<rfloor> < k + 1" by (simp only: floor_less_iff)
    then show ?thesis by simp
  qed
  ultimately consider "\<lfloor>x\<rfloor> = k - 1" | "\<lfloor>x\<rfloor> = k" by linarith
  then show ?thesis
  proof cases
    case 1
    with assms(2) have "1 / 2 \<le> x - of_int \<lfloor>x\<rfloor>" by simp
    moreover from 1 assms(1) have "odd \<lfloor>x\<rfloor>" by simp
    ultimately show ?thesis using 1 by (auto simp: round_even_def Let_def)
  next
    case 2
    with assms(3) have "x - of_int \<lfloor>x\<rfloor> \<le> 1 / 2" by simp
    with 2 assms(1) show ?thesis by (auto simp: round_even_def Let_def)
  qed
qed

lemma round_even_above_half: "of_int k + 1 / 2 < x \<Longrightarrow> k + 1 \<le> round_even x"
proof -
  assume a: "of_int k + 1 / 2 < x"
  then have "of_int k \<le> x" by linarith
  then have f: "k \<le> \<lfloor>x\<rfloor>" by (simp add: le_floor_iff)
  show ?thesis
  proof (cases "\<lfloor>x\<rfloor> = k")
    case True
    with a have "1 / 2 < x - of_int \<lfloor>x\<rfloor>" by simp
    with True show ?thesis by (simp add: round_even_def Let_def)
  next
    case False
    with f round_even_cases [of x] show ?thesis by auto
  qed
qed

subsection \<open>The binary exponent\<close>

lemma pow2_mono: "a \<le> b \<Longrightarrow> (2::rat) powi a \<le> 2 powi b"
  by (rule power_int_increasing) simp_all

lemma pow2_strict: "a < b \<Longrightarrow> (2::rat) powi a < 2 powi b"
  by (rule power_int_strict_increasing) simp_all

lemma pow2_less_imp: "(2::rat) powi a < 2 powi b \<Longrightarrow> a < b"
  using pow2_mono [of b a] by (cases "a < b") auto

lemma pow2_add: "(2::rat) powi (a + b) = 2 powi a * 2 powi b"
  by (simp add: power_int_add)

lemma pow2_bitlen:
  assumes "0 < a"
  shows "(2::rat) powi (bitlen a - 1) \<le> of_int a" and "of_int a < (2::rat) powi bitlen a"
proof -
  from assms have b: "1 \<le> bitlen a"
    using bitlen_eq_zero_iff [of a] bitlen_nonneg [of a] by linarith
  from bitlen_bounds [OF assms] have "2 ^ nat (bitlen a - 1) \<le> a" "a < 2 ^ nat (bitlen a)"
    by simp_all
  then have "rat_of_int (2 ^ nat (bitlen a - 1)) \<le> of_int a" "rat_of_int a < of_int (2 ^ nat (bitlen a))"
    by (simp_all only: of_int_le_iff of_int_less_iff)
  with b show "(2::rat) powi (bitlen a - 1) \<le> of_int a" "of_int a < (2::rat) powi bitlen a"
    by (simp_all add: power_int_def)
qed

lemma ilog2_bounds:
  assumes "0 < x"
  shows "2 powi ilog2 x \<le> x" and "x < 2 powi (ilog2 x + 1)"
proof -
  obtain a b where q: "quotient_of x = (a, b)" by (cases "quotient_of x")
  then have b: "0 < b" and x: "x = of_int a / of_int b"
    by (simp_all add: quotient_of_denom_pos quotient_of_div)
  with assms have a: "0 < a"
    by (simp add: zero_less_divide_iff)
  let ?e = "bitlen a - bitlen b"
  from b have rb: "0 < rat_of_int b" by simp
  have lo: "2 powi (?e - 1) \<le> x"
  proof -
    have "2 powi (?e - 1) * rat_of_int b \<le> 2 powi (?e - 1) * 2 powi bitlen b"
      using pow2_bitlen(2) [OF b] by (intro mult_left_mono) simp_all
    also have "\<dots> = 2 powi (bitlen a - 1)"
      by (simp flip: pow2_add)
    also have "\<dots> \<le> of_int a" by (rule pow2_bitlen(1) [OF a])
    finally show ?thesis using rb by (simp add: x pos_le_divide_eq)
  qed
  have hi: "x < 2 powi (?e + 1)"
  proof -
    have "rat_of_int a < 2 powi bitlen a" by (rule pow2_bitlen(2) [OF a])
    also have "\<dots> = 2 powi (?e + 1) * 2 powi (bitlen b - 1)"
      by (simp flip: pow2_add)
    also have "\<dots> \<le> 2 powi (?e + 1) * rat_of_int b"
      using pow2_bitlen(1) [OF b] by (intro mult_left_mono) simp_all
    finally show ?thesis using rb by (simp add: x pos_divide_less_eq)
  qed
  have i: "ilog2 x = (if 2 powi ?e \<le> x then ?e else ?e - 1)"
    by (simp add: ilog2_def q Let_def)
  show "2 powi ilog2 x \<le> x" using lo by (simp add: i)
  show "x < 2 powi (ilog2 x + 1)" using hi by (simp add: i not_le)
qed

lemma ilog2_eq:
  assumes "2 powi e \<le> x" "x < 2 powi (e + 1)"
  shows "ilog2 x = e"
proof -
  have "0 < (2::rat) powi e" by simp
  with assms(1) have x: "0 < x" by linarith
  from ilog2_bounds(1) [OF x] assms(2) have "2 powi ilog2 x < (2::rat) powi (e + 1)" by linarith
  then have "ilog2 x < e + 1" by (rule pow2_less_imp)
  moreover from ilog2_bounds(2) [OF x] assms(1) have "(2::rat) powi e < 2 powi (ilog2 x + 1)" by linarith
  then have "e < ilog2 x + 1" by (rule pow2_less_imp)
  ultimately show ?thesis by simp
qed

subsection \<open>Rounding to a double\<close>

lemma pow2_half: "(2::rat) powi (e - 52) / 2 = 2 powi (e - 53)"
proof -
  have "(2::rat) powi (e - 52) = 2 powi (e - 53 + 1)" by simp
  also have "\<dots> = 2 powi (e - 53) * 2" by (simp only: pow2_add) simp
  finally show ?thesis by simp
qed

lemma to_double_at:
  assumes "2 powi e \<le> \<bar>x\<bar>" "\<bar>x\<bar> < 2 powi (e + 1)" "- 1022 \<le> e"
  shows "to_double x = of_int (round_even (x / 2 powi (e - 52))) * 2 powi (e - 52)"
proof -
  have "0 < (2::rat) powi e" by simp
  with assms(1) have "0 < \<bar>x\<bar>" by linarith
  then have "x \<noteq> 0" by simp
  moreover from assms(1,2) have "ilog2 \<bar>x\<bar> = e" by (rule ilog2_eq)
  ultimately show ?thesis using assms(3) by (simp add: to_double_def Let_def max_def)
qed

lemma to_double_error:
  assumes "\<bar>x\<bar> < 2 powi (E + 1)" "- 1022 \<le> E"
  shows "\<bar>to_double x - x\<bar> \<le> 2 powi (E - 53)"
proof (cases "x = 0")
  case True
  then show ?thesis by (simp add: to_double_def)
next
  case False
  then have x: "0 < \<bar>x\<bar>" by simp
  define e where "e = max (ilog2 \<bar>x\<bar>) (- 1022)"
  define q :: rat where "q = 2 powi (e - 52)"
  have q: "0 < q" by (simp add: q_def)
  from ilog2_bounds(1) [OF x] assms(1) have "(2::rat) powi ilog2 \<bar>x\<bar> < 2 powi (E + 1)" by linarith
  then have "ilog2 \<bar>x\<bar> < E + 1" by (rule pow2_less_imp)
  with assms(2) have eE: "e \<le> E" by (simp add: e_def)
  have t: "to_double x = of_int (round_even (x / q)) * q"
    using False by (simp add: to_double_def Let_def e_def q_def)
  have "to_double x - x = (of_int (round_even (x / q)) - x / q) * q"
    using q by (simp add: t field_simps)
  then have "\<bar>to_double x - x\<bar> = \<bar>of_int (round_even (x / q)) - x / q\<bar> * q"
    using q by (simp add: abs_mult)
  also have "\<dots> \<le> 1 / 2 * q"
    using q round_even_error [of "x / q"] by (intro mult_right_mono) simp_all
  also have "\<dots> = 2 powi (e - 53)"
    using pow2_half [of e] by (simp add: q_def)
  also have "\<dots> \<le> 2 powi (E - 53)"
    using eE by (intro pow2_mono) simp
  finally show ?thesis .
qed

lemma to_double_nonneg: "0 \<le> x \<Longrightarrow> 0 \<le> to_double x"
proof -
  assume a: "0 \<le> x"
  have "0 \<le> round_even (x / q)" if "0 < q" for q :: rat
    using a that by (intro round_even_ge) simp
  then show ?thesis by (simp add: to_double_def Let_def)
qed

lemma pow2_int: "0 \<le> k \<Longrightarrow> (2::rat) powi k = of_int (2 ^ nat k)"
  by (simp add: power_int_def)

lemma to_double_le_pow2:
  assumes "0 < x" "x \<le> 2 powi k" "- 1022 \<le> k"
  shows "to_double x \<le> 2 powi k"
proof -
  define e where "e = max (ilog2 x) (- 1022)"
  define q :: rat where "q = 2 powi (e - 52)"
  have q: "0 < q" by (simp add: q_def)
  from ilog2_bounds(1) [OF assms(1)] assms(2) have "(2::rat) powi ilog2 x < 2 powi (k + 1)"
    using pow2_strict [of k "k + 1"] by linarith
  then have "ilog2 x < k + 1" by (rule pow2_less_imp)
  with assms(3) have ek: "e \<le> k" by (simp add: e_def)
  have kq: "2 powi k = of_int (2 ^ nat (k - e + 52)) * q"
  proof -
    have "(2::rat) powi k = 2 powi ((k - e + 52) + (e - 52))" by simp
    also have "\<dots> = 2 powi (k - e + 52) * 2 powi (e - 52)" by (simp only: pow2_add)
    finally show ?thesis using ek by (simp add: q_def pow2_int)
  qed
  have t: "to_double x = of_int (round_even (x / q)) * q"
    using assms(1) by (simp add: to_double_def Let_def e_def q_def)
  from assms(2) q have "x / q \<le> of_int (2 ^ nat (k - e + 52))"
    by (simp add: kq pos_divide_le_eq)
  then have "round_even (x / q) \<le> 2 ^ nat (k - e + 52)" by (rule round_even_le)
  then have "rat_of_int (round_even (x / q)) \<le> of_int (2 ^ nat (k - e + 52))"
    by (simp only: of_int_le_iff)
  with q show ?thesis unfolding t kq by (intro mult_right_mono) simp_all
qed

lemma to_double_ge_pow2:
  assumes "2 powi k \<le> x" "- 1022 \<le> k"
  shows "2 powi k \<le> to_double x"
proof -
  have "0 < (2::rat) powi k" by simp
  with assms(1) have x: "0 < x" by linarith
  define e where "e = ilog2 x"
  from ilog2_bounds(2) [OF x] assms(1) have "(2::rat) powi k < 2 powi (e + 1)"
    unfolding e_def by linarith
  then have "k < e + 1" by (rule pow2_less_imp)
  then have ke: "k \<le> e" by simp
  have b: "2 powi e \<le> \<bar>x\<bar>" "\<bar>x\<bar> < 2 powi (e + 1)"
    using ilog2_bounds [OF x] x by (simp_all add: e_def)
  from ke assms(2) have "- 1022 \<le> e" by simp
  note t = to_double_at [OF b this]
  define q :: rat where "q = 2 powi (e - 52)"
  have q: "0 < q" by (simp add: q_def)
  have eq: "2 powi e = of_int (2 ^ 52) * q"
  proof -
    have "(2::rat) powi e = 2 powi (52 + (e - 52))" by simp
    also have "\<dots> = 2 powi 52 * 2 powi (e - 52)" by (simp only: pow2_add)
    finally show ?thesis by (simp add: q_def)
  qed
  from b(1) x q have "of_int (2 ^ 52) \<le> x / q"
    by (simp add: eq pos_le_divide_eq)
  then have "2 ^ 52 \<le> round_even (x / q)" by (rule round_even_ge)
  then have "rat_of_int (2 ^ 52) \<le> of_int (round_even (x / q))"
    by (simp only: of_int_le_iff)
  with q have "of_int (2 ^ 52) * q \<le> to_double x"
    unfolding t q_def [symmetric] by (intro mult_right_mono) simp_all
  with pow2_mono [OF ke] show ?thesis unfolding eq [symmetric] by linarith
qed

section \<open>The savings figure\<close>

lemma savings_percent_eq:
  "n \<noteq> 0 \<Longrightarrow>
   savings_percent n = Inr (py_int (to_double (to_double (1 - to_double (10 / rat_of_int n)) * 100)))"
  by (simp add: savings_percent_cases float_mul_def float_sub_def)

lemma to_double_1: "to_double 1 = 1"
  by code_simp

lemma to_double_100: "to_double 100 = 100"
  by code_simp

text \<open>Just below 1 the doubles are \<open>2 powi (- 53)\<close> apart.\<close>

lemma to_double_below_one:
  assumes "1 / 2 \<le> y" "y < 1"
  shows "to_double y = of_int (round_even (y * 2 ^ 53)) / 2 ^ 53"
proof -
  have "2 powi (- 1) \<le> \<bar>y\<bar>" "\<bar>y\<bar> < 2 powi (- 1 + 1)"
    using assms by (simp_all add: power_int_minus)
  from to_double_at [OF this] show ?thesis
    by (simp add: power_int_minus field_simps)
qed

lemma to_double_near_one:
  assumes "1 - 2 powi (- 54) \<le> y" "y \<le> 1"
  shows "to_double y = 1"
proof (cases "y = 1")
  case True
  then show ?thesis by (simp add: to_double_1)
next
  case False
  with assms(2) have y1: "y < 1" by simp
  from assms(1) have lo: "1 - 1 / 2 ^ 54 \<le> y" by (simp add: power_int_minus field_simps)
  then have "1 / 2 \<le> y" by simp
  note t = to_double_below_one [OF this y1]
  have "round_even (y * 2 ^ 53) = 2 ^ 53"
  proof (rule round_even_tie_even)
    show "even ((2::int) ^ 53)" by simp
    show "of_int (2 ^ 53) - 1 / 2 \<le> y * 2 ^ 53" using lo by simp
    show "y * 2 ^ 53 \<le> of_int (2 ^ 53) + 1 / 2" using y1 by simp
  qed
  then show ?thesis by (simp add: t)
qed

text \<open>Between \<open>2 powi (- 54)\<close> and \<open>2 powi (- 53)\<close> the doubles are \<open>2 powi (- 106)\<close> apart.\<close>

lemma to_double_tiny:
  assumes "1 / 2 ^ 54 \<le> x" "x < 1 / 2 ^ 53"
  shows "to_double x = of_int (round_even (x * 2 ^ 106)) / 2 ^ 106"
proof -
  have "2 powi (- 54) \<le> \<bar>x\<bar>" "\<bar>x\<bar> < 2 powi (- 54 + 1)"
    using assms by (simp_all add: power_int_minus field_simps)
  from to_double_at [OF this] show ?thesis
    by (simp add: power_int_minus field_simps)
qed

text \<open>Between 64 and 128 the doubles are \<open>2 powi (- 46)\<close> apart.\<close>

lemma to_double_64_128:
  assumes "64 \<le> z" "z < 128"
  shows "to_double z = of_int (round_even (z * 2 ^ 46)) / 2 ^ 46"
proof -
  have "2 powi 6 \<le> \<bar>z\<bar>" "\<bar>z\<bar> < 2 powi (6 + 1)"
    using assms by simp_all
  from to_double_at [OF this] show ?thesis
    by (simp add: power_int_minus field_simps)
qed

text \<open>A quotient of at most \<open>2 powi (- 54) + 2 powi (- 107)\<close> rounds to at most \<open>2 powi (- 54)\<close>.\<close>

lemma to_double_quotient_small:
  assumes "0 < x" "x \<le> 1 / 2 ^ 54 + 1 / 2 ^ 107"
  shows "0 \<le> to_double x \<and> to_double x \<le> 1 / 2 ^ 54"
proof (rule conjI)
  show "0 \<le> to_double x" using assms(1) by (intro to_double_nonneg) simp
  show "to_double x \<le> 1 / 2 ^ 54"
  proof (cases "x < 1 / 2 ^ 54")
    case True
    then have "x \<le> 2 powi (- 54)" by (simp add: power_int_minus field_simps)
    from to_double_le_pow2 [OF assms(1) this] show ?thesis
      by (simp add: power_int_minus field_simps)
  next
    case False
    then have lo: "1 / 2 ^ 54 \<le> x" by simp
    from assms(2) have "x < 1 / 2 ^ 53" by simp
    note t = to_double_tiny [OF lo this]
    have "round_even (x * 2 ^ 106) = 2 ^ 52"
    proof (rule round_even_tie_even)
      show "even ((2::int) ^ 52)" by simp
      show "of_int (2 ^ 52) - 1 / 2 \<le> x * 2 ^ 106" using lo by simp
      show "x * 2 ^ 106 \<le> of_int (2 ^ 52) + 1 / 2" using assms(2) by simp
    qed
    then show ?thesis by (simp add: t)
  qed
qed

lemma savings_percent_large:
  assumes "180143985094819821 \<le> n"
  shows "savings_percent n = Inr 100"
proof -
  from assms have n: "0 < n" by simp
  let ?x = "10 / rat_of_int n"
  have x0: "0 < ?x" using n by simp
  have "rat_of_int 180143985094819821 \<le> of_int n" using assms by (simp only: of_int_le_iff)
  then have "?x \<le> 10 / 180143985094819821" using n by (simp add: field_simps)
  also have "\<dots> \<le> 1 / 2 ^ 54 + 1 / 2 ^ 107" by simp
  finally have "?x \<le> 1 / 2 ^ 54 + 1 / 2 ^ 107" .
  from to_double_quotient_small [OF x0 this]
  have d: "0 \<le> to_double ?x" "to_double ?x \<le> 1 / 2 ^ 54" by simp_all
  have "to_double (1 - to_double ?x) = 1"
    using d by (intro to_double_near_one) (simp_all add: power_int_minus field_simps)
  with n show ?thesis
    by (simp add: savings_percent_eq to_double_100 py_int_def)
qed


text \<open>A quotient above \<open>2 powi (- 54) + 2 powi (- 107)\<close> rounds to more than \<open>2 powi (- 54)\<close>.\<close>

lemma to_double_quotient_above:
  assumes "1 / 2 ^ 54 + 1 / 2 ^ 107 < x"
  shows "1 / 2 ^ 54 + 1 / 2 ^ 106 \<le> to_double x"
proof (cases "x < 1 / 2 ^ 53")
  case True
  from assms have lo: "1 / 2 ^ 54 \<le> x" by simp
  note t = to_double_tiny [OF lo True]
  have "2 ^ 52 + 1 \<le> round_even (x * 2 ^ 106)"
    using assms by (intro round_even_above_half) simp
  then have "rat_of_int (2 ^ 52 + 1) \<le> of_int (round_even (x * 2 ^ 106))"
    by (simp only: of_int_le_iff)
  then show ?thesis by (simp add: t field_simps)
next
  case False
  then have "2 powi (- 53) \<le> x" by (simp add: power_int_minus field_simps)
  from to_double_ge_pow2 [OF this] have "1 / 2 ^ 53 \<le> to_double x"
    by (simp add: power_int_minus field_simps)
  then show ?thesis by simp
qed

lemma savings_percent_mid:
  assumes "1000 < n" "n < 180143985094819821"
  shows "savings_percent n = Inr 99"
proof -
  from assms have n: "0 < n" by simp
  let ?x = "10 / rat_of_int n"
  let ?d = "to_double ?x"
  let ?s = "to_double (1 - ?d)"
  let ?m = "to_double (?s * 100)"
  have rn: "1001 \<le> rat_of_int n" "rat_of_int n \<le> 180143985094819820"
    using assms by linarith+
  have x_lo: "1 / 2 ^ 54 + 1 / 2 ^ 107 < ?x"
  proof -
    have "1 / 2 ^ 54 + 1 / 2 ^ 107 < 10 / (180143985094819820::rat)" by simp
    also have "\<dots> \<le> ?x" using rn n by (simp add: field_simps)
    finally show ?thesis .
  qed
  have x_hi: "?x \<le> 10 / 1001" using rn n by (simp add: field_simps)
  have d_lo: "1 / 2 ^ 54 + 1 / 2 ^ 106 \<le> ?d" by (rule to_double_quotient_above [OF x_lo])
  have d_hi: "?d \<le> 10 / 1001 + 1 / 2 ^ 60"
  proof -
    have "0 < ?x" using n by simp
    moreover have "?x < 1 / 64" using x_hi by linarith
    ultimately have "\<bar>?x\<bar> < 1 / 64" by linarith
    then have "\<bar>?x\<bar> < 2 powi (- 7 + 1)" by (simp add: power_int_minus)
    from to_double_error [OF this] have "\<bar>?d - ?x\<bar> \<le> 1 / 2 ^ 60"
      by (simp add: power_int_minus field_simps)
    with x_hi show ?thesis by linarith
  qed
  have y: "1 / 2 \<le> 1 - ?d" "1 - ?d < 1" using d_lo d_hi by simp_all
  note ts = to_double_below_one [OF y]
  have s_hi: "?s \<le> 1 - 1 / 2 ^ 53"
  proof -
    have "(1 - ?d) * 2 ^ 53 < of_int (2 ^ 53) - 1 / 2" using d_lo by simp
    then have "round_even ((1 - ?d) * 2 ^ 53) \<le> 2 ^ 53 - 1" by (rule round_even_below_half)
    then have "rat_of_int (round_even ((1 - ?d) * 2 ^ 53)) \<le> of_int (2 ^ 53 - 1)"
      by (simp only: of_int_le_iff)
    then show ?thesis by (simp add: ts field_simps)
  qed
  have s_lo: "99 / 100 \<le> ?s"
  proof -
    have "\<bar>1 - ?d\<bar> < 2 powi (- 1 + 1)" using y by simp
    from to_double_error [OF this] have "\<bar>?s - (1 - ?d)\<bar> \<le> 1 / 2 ^ 54"
      by (simp add: power_int_minus field_simps)
    then have "1 - ?d - 1 / 2 ^ 54 \<le> ?s" by linarith
    moreover have "(99::rat) / 100 \<le> 1 - (10 / 1001 + 1 / 2 ^ 60) - 1 / 2 ^ 54" by simp
    ultimately show ?thesis using d_hi by linarith
  qed
  have z: "64 \<le> ?s * 100" "?s * 100 < 128" using s_lo s_hi by simp_all
  note tm = to_double_64_128 [OF z]
  have m_lo: "99 \<le> ?m"
  proof -
    have "of_int (99 * 2 ^ 46) \<le> ?s * 100 * 2 ^ 46" using s_lo by simp
    then have "99 * 2 ^ 46 \<le> round_even (?s * 100 * 2 ^ 46)" by (rule round_even_ge)
    then have "rat_of_int (99 * 2 ^ 46) \<le> of_int (round_even (?s * 100 * 2 ^ 46))"
      by (simp only: of_int_le_iff)
    then have "rat_of_int (99 * 2 ^ 46) / 2 ^ 46 \<le> of_int (round_even (?s * 100 * 2 ^ 46)) / 2 ^ 46"
      by (rule divide_right_mono) simp
    moreover have "rat_of_int (99 * 2 ^ 46) / 2 ^ 46 = 99" by simp
    ultimately show ?thesis by (simp only: tm)
  qed
  have m_hi: "?m < 100"
  proof -
    have "?s * 100 * 2 ^ 46 < of_int (100 * 2 ^ 46) - 1 / 2" using s_hi by simp
    then have "round_even (?s * 100 * 2 ^ 46) \<le> 100 * 2 ^ 46 - 1" by (rule round_even_below_half)
    then have "rat_of_int (round_even (?s * 100 * 2 ^ 46)) \<le> of_int (100 * 2 ^ 46 - 1)"
      by (simp only: of_int_le_iff)
    then have "of_int (round_even (?s * 100 * 2 ^ 46)) / 2 ^ 46 \<le> rat_of_int (100 * 2 ^ 46 - 1) / 2 ^ 46"
      by (rule divide_right_mono) simp
    moreover have "rat_of_int (100 * 2 ^ 46 - 1) / 2 ^ 46 < 100" by simp
    ultimately show ?thesis by (simp only: tm)
  qed
  from m_lo m_hi have "\<lfloor>?m\<rfloor> = 99" by linarith
  with m_lo n show ?thesis
    by (simp add: savings_percent_eq py_int_def)
qed

text \<open>A quotient that is not an integer is at least \<open>1 / n\<close> away from the integers around it.\<close>

lemma quotient_between:
  assumes "0 < n" "\<not> n dvd a"
  shows "of_int (a div n) + 1 / rat_of_int n \<le> of_int a / of_int n"
    and "rat_of_int a / of_int n + 1 / of_int n \<le> of_int (a div n) + 1"
proof -
  from assms have r: "1 \<le> a mod n" "a mod n \<le> n - 1"
    using pos_mod_bound [of n a] pos_mod_sign [of n a] mod_eq_0_iff_dvd [of a n] by linarith+
  have ra: "rat_of_int a = of_int n * of_int (a div n) + of_int (a mod n)"
    by (metis mult_div_mod_eq of_int_add of_int_mult)
  have a: "rat_of_int a / of_int n = of_int (a div n) + of_int (a mod n) / of_int n"
    using assms(1) by (subst ra) (simp add: add_divide_distrib)
  from r have "rat_of_int 1 \<le> of_int (a mod n)" "rat_of_int (a mod n) \<le> of_int (n - 1)"
    by (simp_all only: of_int_le_iff)
  then have "1 / rat_of_int n \<le> of_int (a mod n) / of_int n"
      "rat_of_int (a mod n) / of_int n \<le> of_int (n - 1) / of_int n"
    using assms(1) by (simp_all add: divide_right_mono)
  moreover have "rat_of_int (n - 1) / of_int n + 1 / of_int n = 1"
    using assms(1) by (simp add: field_simps)
  ultimately show "of_int (a div n) + 1 / rat_of_int n \<le> of_int a / of_int n"
    and "rat_of_int a / of_int n + 1 / of_int n \<le> of_int (a div n) + 1"
    unfolding a by linarith+
qed

lemma py_int_between:
  assumes "of_int k < x" "x < of_int k + 1" "of_int k < y" "y < of_int k + 1"
  shows "py_int x = py_int y"
proof -
  have f: "\<lfloor>x\<rfloor> = k" "\<lfloor>y\<rfloor> = k" using assms by linarith+
  have c: "\<lceil>x\<rceil> = k + 1" "\<lceil>y\<rceil> = k + 1" using assms by linarith+
  show ?thesis
  proof (cases "0 \<le> k")
    case True
    then have "0 \<le> rat_of_int k" by simp
    with assms have "0 \<le> x" "0 \<le> y" by linarith+
    with f show ?thesis by (simp add: py_int_def)
  next
    case False
    then have "k + 1 \<le> 0" by simp
    then have "rat_of_int (k + 1) \<le> 0" by (simp only: of_int_le_0_iff)
    with assms have "x < 0" "y < 0" by simp_all
    with c show ?thesis by (simp add: py_int_def)
  qed
qed

lemma error_chain:
  fixes m s d x a b c :: rat
  assumes "\<bar>d - x\<bar> \<le> a" "\<bar>s - (1 - d)\<bar> \<le> b" "\<bar>m - s * 100\<bar> \<le> c"
  shows "\<bar>m - (1 - x) * 100\<bar> \<le> c + 100 * b + 100 * a"
proof -
  have "m - (1 - x) * 100 = (m - s * 100) + 100 * (s - (1 - d)) - 100 * (d - x)"
    by (simp add: algebra_simps)
  moreover have "\<bar>100 * (s - (1 - d))\<bar> \<le> 100 * b" "\<bar>100 * (d - x)\<bar> \<le> 100 * a"
    using assms by (simp_all add: abs_mult)
  ultimately show ?thesis using assms(3) by linarith
qed

lemma savings_percent_small:
  assumes "1 \<le> n" "n \<le> 1000" "\<not> n dvd 1000"
  shows "savings_percent n = Inr (py_int ((1 - 10 / rat_of_int n) * 100))"
proof -
  from assms have n: "0 < n" by simp
  define x where "x = 10 / rat_of_int n"
  define d where "d = to_double x"
  define s where "s = to_double (1 - d)"
  define m where "m = to_double (s * 100)"
  define k where "k = (100 * n - 1000) div n"
  have rn: "1 \<le> rat_of_int n" "rat_of_int n \<le> 1000" using assms by linarith+
  have x: "0 < x" "x \<le> 10" using rn n by (simp_all add: x_def field_simps)
  have ed: "\<bar>d - x\<bar> \<le> 1 / 2 ^ 50"
  proof -
    from x have "\<bar>x\<bar> < 2 powi (3 + 1)" by simp
    from to_double_error [OF this] show ?thesis
      by (simp add: d_def power_int_minus field_simps)
  qed
  have d0: "0 \<le> d" using x(1) unfolding d_def by (intro to_double_nonneg) simp
  have es: "\<bar>s - (1 - d)\<bar> \<le> 1 / 2 ^ 50"
  proof -
    have "(1::rat) / 2 ^ 50 \<le> 1" by simp
    with ed x d0 have "\<bar>1 - d\<bar> < 16" by linarith
    then have "\<bar>1 - d\<bar> < 2 powi (3 + 1)" by simp
    from to_double_error [OF this] show ?thesis
      by (simp add: s_def power_int_minus field_simps)
  qed
  have em: "\<bar>m - s * 100\<bar> \<le> 1 / 2 ^ 44"
  proof -
    have "(1::rat) / 2 ^ 50 \<le> 1 / 100" by simp
    with ed es x d0 have "\<bar>s * 100\<bar> < 1024" by linarith
    then have "\<bar>s * 100\<bar> < 2 powi (9 + 1)" by simp
    from to_double_error [OF this] show ?thesis
      by (simp add: m_def power_int_minus field_simps)
  qed
  have "(1::rat) / 2 ^ 44 + 100 * (1 / 2 ^ 50) + 100 * (1 / 2 ^ 50) < 1 / 1000" by simp
  with error_chain [OF ed es em] have close: "\<bar>m - (1 - x) * 100\<bar> < 1 / 1000" by linarith
  have "1 / 1000 \<le> 1 / rat_of_int n" using rn n by (simp add: field_simps)
  with close have near: "\<bar>m - (1 - x) * 100\<bar> < 1 / rat_of_int n" by linarith
  have e: "(1 - x) * 100 = rat_of_int (100 * n - 1000) / of_int n"
    using n by (simp add: x_def field_simps)
  have nd: "\<not> n dvd (100 * n - 1000)"
  proof
    assume "n dvd (100 * n - 1000)"
    moreover have "n dvd 100 * n" by simp
    ultimately have "n dvd (100 * n - (100 * n - 1000))" by (rule dvd_diff [rotated])
    with assms(3) show False by simp
  qed
  from quotient_between [OF n nd]
  have b: "of_int k + 1 / rat_of_int n \<le> (1 - x) * 100" "(1 - x) * 100 + 1 / of_int n \<le> of_int k + 1"
    unfolding e k_def by simp_all
  have p: "0 < 1 / rat_of_int n" using n by simp
  from b p have "of_int k < (1 - x) * 100" "(1 - x) * 100 < of_int k + 1" by linarith+
  moreover from b near have "of_int k < m" "m < of_int k + 1" by linarith+
  ultimately have "py_int m = py_int ((1 - x) * 100)" by (intro py_int_between)
  with n show ?thesis
    by (simp add: savings_percent_eq m_def s_def d_def x_def)
qed

text \<open>The catalog sizes that divide 1000, where the exact figure is an integer, one by one.\<close>

lemma divisors_1000:
  "list_all (\<lambda>n. n dvd 1000 \<longrightarrow> n \<in> set [1, 2, 4, 5, 8, 10, 20, 25, 40, 50, 100, 125, 200, 250, 500, 1000])
     [1 .. 1000 :: int]"
  by code_simp

lemma savings_percent_divisors_a:
  "list_all (\<lambda>n. savings_percent n = Inr (py_int ((1 - 10 / rat_of_int n) * 100))) [1, 2, 4, 5]"
  by code_simp

lemma savings_percent_divisors_b:
  "list_all (\<lambda>n. savings_percent n = Inr (py_int ((1 - 10 / rat_of_int n) * 100))) [8, 10, 20, 25]"
  by code_simp

lemma savings_percent_divisors_c:
  "list_all (\<lambda>n. savings_percent n = Inr (py_int ((1 - 10 / rat_of_int n) * 100))) [40, 50, 100, 125]"
  by code_simp

lemma savings_percent_divisors_d:
  "list_all (\<lambda>n. savings_percent n = Inr (py_int ((1 - 10 / rat_of_int n) * 100))) [200, 250, 500, 1000]"
  by code_simp

lemma savings_percent_divisor:
  assumes "1 \<le> n" "n \<le> 1000" "n dvd 1000"
  shows "savings_percent n = Inr (py_int ((1 - 10 / rat_of_int n) * 100))"
proof -
  from assms(1,2) have "n \<in> set [1 .. 1000]" by simp
  with divisors_1000 assms(3)
  have "n \<in> set [1, 2, 4, 5, 8, 10, 20, 25, 40, 50, 100, 125, 200, 250, 500, 1000]"
    unfolding list_all_iff by blast
  then have "n \<in> set [1, 2, 4, 5] \<or> n \<in> set [8, 10, 20, 25] \<or> n \<in> set [40, 50, 100, 125] \<or>
             n \<in> set [200, 250, 500, 1000]"
    by auto
  with savings_percent_divisors_a savings_percent_divisors_b savings_percent_divisors_c
    savings_percent_divisors_d
  show ?thesis unfolding list_all_iff by blast
qed

lemma exact_mid:
  assumes "1000 < n"
  shows "py_int ((1 - 10 / rat_of_int n) * 100) = 99"
proof -
  from assms have rn: "1000 < rat_of_int n" by linarith
  then have "0 < 10 / rat_of_int n" "10 / rat_of_int n < 1 / 100"
    by (simp_all add: field_simps)
  moreover have "(1 - 10 / rat_of_int n) * 100 = 100 - 100 * (10 / rat_of_int n)"
    by (simp add: algebra_simps)
  ultimately have "99 < (1 - 10 / rat_of_int n) * 100" "(1 - 10 / rat_of_int n) * 100 < 100"
    by linarith+
  then have "\<lfloor>(1 - 10 / rat_of_int n) * 100\<rfloor> = 99" "0 \<le> (1 - 10 / rat_of_int n) * 100"
    by linarith+
  then show ?thesis by (simp add: py_int_def)
qed

lemma savings_percent_12: "savings_percent 12 = Inr 16"
  by code_simp

lemma savings_percent_5: "savings_percent 5 = Inr (- 100)"
  by code_simp

lemma savings_percent_spec_12: "savings_percent_spec 12 = 17"
  by code_simp

text \<open>
  C1, amended. For every catalog of at least one tool the savings figure is
  \<open>(1 - active_tokens / baseline_tokens) * 100\<close>, with \<open>active_tokens = 5000\<close> and
  \<open>baseline_tokens = tool_count * 500\<close>, truncated toward zero (\<^verbatim>\<open>int\<close>, not \<^verbatim>\<open>round\<close>); the
  double arithmetic of the source gives the truncation of the exact value for every
  \<open>tool_count\<close> below 180143985094819821 and 100 from there on. A catalog of 12 tools yields
  16, a catalog of 5 tools yields \<open>- 100\<close>, reported as computed and not clamped.
\<close>

theorem savings_percent_truncates:
  "(1 \<le> tool_count \<longrightarrow>
      savings_percent tool_count
        = Inr (if tool_count < 180143985094819821
               then py_int ((1 - 5000 / rat_of_int (tool_count * 500)) * 100)
               else 100)) \<and>
   savings_percent 12 = Inr 16 \<and> savings_percent 5 = Inr (- 100)"
proof (intro conjI impI)
  assume n: "1 \<le> tool_count"
  have q: "5000 / rat_of_int (tool_count * 500) = 10 / rat_of_int tool_count"
    by simp
  consider "180143985094819821 \<le> tool_count"
    | "1000 < tool_count" "tool_count < 180143985094819821"
    | "tool_count \<le> 1000" "tool_count dvd 1000"
    | "tool_count \<le> 1000" "\<not> tool_count dvd 1000"
    by linarith
  then show "savings_percent tool_count
        = Inr (if tool_count < 180143985094819821
               then py_int ((1 - 5000 / rat_of_int (tool_count * 500)) * 100)
               else 100)"
  proof cases
    case 1
    then show ?thesis by (simp add: savings_percent_large)
  next
    case 2
    then show ?thesis by (simp only: q savings_percent_mid exact_mid if_True)
  next
    case 3
    with n savings_percent_divisor [of tool_count] show ?thesis by (simp only: q) simp
  next
    case 4
    with n savings_percent_small [of tool_count] show ?thesis by (simp only: q) simp
  qed
next
  show "savings_percent 12 = Inr 16" by (rule savings_percent_12)
  show "savings_percent 5 = Inr (- 100)" by (rule savings_percent_5)
qed

theorem savings_percent_truncates_witness: "savings_percent 1 = Inr (- 900)"
proof -
  have "py_int ((1 - 5000 / rat_of_int (1 * 500)) * 100) = - 900"
    by (simp add: py_int_def)
  with savings_percent_truncates [of 1] show ?thesis by simp
qed

text \<open>
  C1, as the claim states it: for 12 tools the source reports 16, the rounded figure of the
  specification is 17.
\<close>

theorem savings_percent_not_rounded:
  "savings_percent 12 = Inr 16 \<and> savings_percent_spec 12 = 17"
  by (simp add: savings_percent_12 savings_percent_spec_12)

section \<open>The token budget in the generated document\<close>

lemma savings_percent_1: "savings_percent 1 = Inr (- 900)"
  by code_simp

text \<open>
  C4, amended. For every non-empty catalog of tools that have a name, \<^verbatim>\<open>_generate_skill_md\<close>
  writes \<^verbatim>\<open>SKILL.md\<close>, and the token figures of the document are these: the idle, active
  and executing budgets are the constant texts \<^verbatim>\<open>100 tokens\<close>, \<^verbatim>\<open>5k tokens\<close> and
  \<^verbatim>\<open>0 tokens\<close>, the same for every catalog size (5000 is written \<^verbatim>\<open>5k\<close>), and the baseline is
  the integer \<open>tool_count * 500\<close>, in the section ``Context Efficiency'' and in each row of
  the table.
\<close>

theorem skill_md_token_budget:
  assumes "tools \<noteq> []"
    and "\<forall>t \<in> set tools. \<exists>kvs. t = JObj kvs \<and> ''name'' \<in> set (map fst kvs)"
  shows "\<exists>doc savings w'.
           generate_skill_md g tools w = (None, w') \<and>
           files w' (self_output_dir g @ [''SKILL.md'']) = Some (SkillMdFile doc) \<and>
           savings_percent (int (length tools)) = Inr savings \<and>
           md_context_efficiency doc =
             [ [Text ''## Context Efficiency''],
               [],
               [Text ''Traditional MCP approach:''],
               [Text ''- All '', Num (int (length tools)), Text '' tools loaded at startup''],
               [Text ''- Estimated context: '', Num (int (length tools) * 500), Text '' tokens''],
               [],
               [Text ''This skill approach:''],
               [Text ''- Metadata only: ~100 tokens''],
               [Text ''- Full instructions (when used): ~5k tokens''],
               [Text ''- Tool execution: 0 tokens (runs externally)''] ] \<and>
           md_performance_notes doc =
             [ [Text ''## Performance Notes''],
               [],
               [Text ''Context usage comparison for this skill:''],
               [],
               [Text ''| Scenario | MCP (preload) | Skill (dynamic) |''],
               [Text ''|----------|---------------|-----------------|''],
               [Text ''| Idle | '', Num (int (length tools) * 500), Text '' tokens | 100 tokens |''],
               [Text ''| Active | '', Num (int (length tools) * 500), Text '' tokens | 5k tokens |''],
               [Text ''| Executing | '', Num (int (length tools) * 500), Text '' tokens | 0 tokens |''],
               [],
               [Text ''Savings: ~'', Num savings, Text ''% reduction in typical usage''] ]"
proof -
  from assms(2) obtain ls where ls: "tool_lines tools = Inr ls"
    using tool_lines_ok by blast
  from assms(1) have "int (length tools) \<noteq> 0" by simp
  then obtain savings where sv: "savings_percent (int (length tools)) = Inr savings"
    by (auto simp: savings_percent_cases)
  from ls sv show ?thesis
    by (simp add: generate_skill_md_def skill_md_content_def write_file_def print_line_def Let_def)
qed

theorem skill_md_token_budget_witness:
  "\<exists>doc w'.
     generate_skill_md weather_generator mock_tools weather_world = (None, w') \<and>
     files w' [''skills'', ''weather'', ''SKILL.md''] = Some (SkillMdFile doc) \<and>
     md_context_efficiency doc ! 4 = [Text ''- Estimated context: '', Num 500, Text '' tokens''] \<and>
     md_context_efficiency doc ! 8 = [Text ''- Full instructions (when used): ~5k tokens''] \<and>
     md_performance_notes doc ! 7 = [Text ''| Active | '', Num 500, Text '' tokens | 5k tokens |''] \<and>
     md_performance_notes doc ! 10 = [Text ''Savings: ~'', Num (- 900), Text ''% reduction in typical usage'']"
proof -
  have 1: "mock_tools \<noteq> []" by (simp add: mock_tools_def)
  have 2: "\<forall>t \<in> set mock_tools. \<exists>kvs. t = JObj kvs \<and> ''name'' \<in> set (map fst kvs)"
    by (simp add: mock_tools_def)
  have 3: "int (length mock_tools) = 1" by (simp add: mock_tools_def)
  have 4: "self_output_dir weather_generator = [''skills'', ''weather'']"
    by (simp add: weather_generator_def new_generator_def)
  from skill_md_token_budget [OF 1 2, of weather_generator weather_world]
  show ?thesis
    unfolding 3 4 by (auto simp: savings_percent_1)
qed

text \<open>
  C4, as the claim states it: for the catalog of size 0 there is no generated artifact;
  \<^verbatim>\<open>_generate_skill_md\<close> raises and \<^verbatim>\<open>SKILL.md\<close> is not written.
\<close>

theorem skill_md_empty_catalog_unwritten:
  "generate_skill_md weather_generator [] weather_world = (Some ZeroDivisionError, weather_world) \<and>
   files weather_world [''skills'', ''weather'', ''SKILL.md''] = None"
  by (simp add: generate_skill_md_def skill_md_content_def savings_percent_cases weather_world_def)

end
